theory Spec2Isabelle
  imports Complex_Main "HOL-Library.Char_ord" "HOL-Library.List_Lexorder"
    "HOL-Library.Log_Nat" "HOL-Library.Word"
begin

section \<open>Parsed JSON documents\<close>

text \<open>
  The value \<open>json.load\<close> returns. A Python \<open>dict\<close> is an association list in insertion
  order, read with \<open>map_of\<close>; Python's \<open>None\<close> is \<open>JNull\<close>. An integer literal of the
  report is an unbounded \<open>int\<close>. A number with a fraction or an exponent is a Python
  float: \<open>JFloat q\<close> holds the rational \<open>q\<close> the text denotes and stands for the double
  nearest to it, \<open>float64 q\<close> below.
\<close>

datatype json =
    JNull
  | JBool bool
  | JInt int
  | JFloat rat
  | JStr string
  | JList "json list"
  | JObj "(string \<times> json) list"

datatype py_error = AttributeError | TypeError | IndexError | KeyError | ValueError | OSError

definition then_ok :: "py_error + 'a \<Rightarrow> ('a \<Rightarrow> py_error + 'b) \<Rightarrow> py_error + 'b" where
  "then_ok r f = (case r of Inl e \<Rightarrow> Inl e | Inr v \<Rightarrow> f v)"

subsection \<open>Doubles\<close>

text \<open>
  A finite double is the rational it is equal to. \<open>float64 x\<close> is the double nearest to
  \<open>x\<close>, ties going to the even significand: \<open>x\<close> lies in a binade
  \<open>2 ^ e \<le> \<bar>x\<bar> < 2 ^ (e + 1)\<close>, where the doubles are the multiples of \<open>2 ^ (e - 52)\<close>.
  Every operation on doubles returns \<open>float64\<close> of the exact result. Overflow to
  infinity, subnormal numbers and NaN are not modelled; the quotients and products
  formed below from 64-bit integers stay within the normal range.
\<close>

definition round_half_even :: "rat \<Rightarrow> int" where
  "round_half_even x =
     (let f = \<lfloor>x\<rfloor>; d = x - of_int f
      in if d < 1 / 2 then f else if 1 / 2 < d then f + 1 else if even f then f else f + 1)"

definition two_pow :: "int \<Rightarrow> rat" where
  "two_pow k = (if 0 \<le> k then 2 ^ nat k else 1 / 2 ^ nat (- k))"

text \<open>The exponent \<open>e\<close> of the binade of a positive rational.\<close>

definition floor_log2 :: "rat \<Rightarrow> int" where
  "floor_log2 x =
     (case quotient_of x of (p, q) \<Rightarrow>
        let k = bitlen p - bitlen q in if two_pow k \<le> x then k else k - 1)"

definition float64 :: "rat \<Rightarrow> rat" where
  "float64 x =
     (if x = 0 then 0
      else let ulp = two_pow (floor_log2 \<bar>x\<bar> - 52)
           in of_int (round_half_even (x / ulp)) * ulp)"

subsection \<open>Python operations used by the extractors\<close>

text \<open>Truth value of an object, as \<open>not x\<close> and \<open>x or y\<close> test it.\<close>

fun truthy :: "json \<Rightarrow> bool" where
  "truthy JNull = False"
| "truthy (JBool b) = b"
| "truthy (JInt n) = (n \<noteq> 0)"
| "truthy (JFloat q) = (float64 q \<noteq> 0)"
| "truthy (JStr s) = (s \<noteq> [])"
| "truthy (JList xs) = (xs \<noteq> [])"
| "truthy (JObj kvs) = (kvs \<noteq> [])"

text \<open>\<open>x.get(k, d)\<close>: only a dict has the method; any other object raises AttributeError.\<close>

fun dict_get :: "json \<Rightarrow> string \<Rightarrow> json \<Rightarrow> py_error + json" where
  "dict_get (JObj kvs) k d = Inr (case map_of kvs k of None \<Rightarrow> d | Some v \<Rightarrow> v)"
| "dict_get _ k d = Inl AttributeError"

text \<open>
  \<open>round(x, 2)\<close>: an int is returned as it is, a bool as the int it is; a float is
  rounded to two decimals on its exact value, halves to even, and the result is the
  double nearest to that decimal; \<open>None\<close>, strings, lists and dicts raise TypeError.
\<close>

fun py_round2 :: "json \<Rightarrow> py_error + json" where
  "py_round2 (JInt n) = Inr (JInt n)"
| "py_round2 (JBool b) = Inr (JInt (if b then 1 else 0))"
| "py_round2 (JFloat q) = Inr (JFloat (of_int (round_half_even (float64 q * 100)) / 100))"
| "py_round2 _ = Inl TypeError"

text \<open>\<open>x > 5\<close>: defined between numbers only.\<close>

fun py_gt5 :: "json \<Rightarrow> py_error + json" where
  "py_gt5 (JInt n) = Inr (JBool (5 < n))"
| "py_gt5 (JBool b) = Inr (JBool False)"
| "py_gt5 (JFloat q) = Inr (JBool (5 < float64 q))"
| "py_gt5 _ = Inl TypeError"

text \<open>
  \<open>predicted_present or (aligned_count > 5)\<close>: the comparison is evaluated only when the
  left operand is false, and the result is the operand that decided.
\<close>

definition presence_expr :: "json \<Rightarrow> json \<Rightarrow> py_error + json" where
  "presence_expr predicted_present aligned_count =
     (if truthy predicted_present then Inr predicted_present else py_gt5 aligned_count)"

text \<open>\<open>for item in x\<close>: a list yields its elements, a dict its keys, a string its characters.\<close>

fun py_iter :: "json \<Rightarrow> py_error + json list" where
  "py_iter (JList xs) = Inr xs"
| "py_iter (JObj kvs) = Inr (map (\<lambda>kv. JStr (fst kv)) kvs)"
| "py_iter (JStr s) = Inr (map (\<lambda>c. JStr [c]) s)"
| "py_iter _ = Inl TypeError"

text \<open>\<open>x[0]\<close>.\<close>

fun py_index0 :: "json \<Rightarrow> py_error + json" where
  "py_index0 (JList []) = Inl IndexError"
| "py_index0 (JList (x # xs)) = Inr x"
| "py_index0 (JStr []) = Inl IndexError"
| "py_index0 (JStr (c # cs)) = Inr (JStr [c])"
| "py_index0 (JObj kvs) = Inl KeyError"
| "py_index0 _ = Inl TypeError"

section \<open>Logging\<close>

text \<open>
  Every call to a logger is recorded with its level. \<open>main.py\<close> configures the log file
  with \<open>level=logging.ERROR\<close>, so the file receives the calls at ERROR and above.
  The text of an exception inside a message is represented by the exception's class name.
\<close>

datatype level = INFO | WARNING | ERROR | CRITICAL

type_synonym log_entry = "level \<times> string"

fun exc_text :: "py_error \<Rightarrow> string" where
  "exc_text AttributeError = ''AttributeError''"
| "exc_text TypeError = ''TypeError''"
| "exc_text IndexError = ''IndexError''"
| "exc_text KeyError = ''KeyError''"
| "exc_text ValueError = ''ValueError''"
| "exc_text OSError = ''OSError''"

fun at_least_error :: "level \<Rightarrow> bool" where
  "at_least_error ERROR = True"
| "at_least_error CRITICAL = True"
| "at_least_error _ = False"

definition log_file :: "log_entry list \<Rightarrow> log_entry list" where
  "log_file calls = filter (\<lambda>c. at_least_error (fst c)) calls"

section \<open>utils.py\<close>

subsection \<open>Report loader\<close>

text \<open>
  What opening and parsing the file at a path does: the file is missing, its text is not
  JSON, some other exception is raised, or a document is returned.
\<close>

datatype file_result = FileNotFound | JSONDecodeError | OtherError | Parsed json

text \<open>\<open>os.path.join\<close> of two components (POSIX).\<close>

definition os_path_join :: "string \<Rightarrow> string \<Rightarrow> string" where
  "os_path_join a b =
     (if b \<noteq> [] \<and> hd b = CHR ''/'' then b
      else if a = [] \<or> last a = CHR ''/'' then a @ b
      else a @ ''/'' @ b)"

definition sample_folder :: "string \<Rightarrow> string \<Rightarrow> string" where
  "sample_folder sample_i common_prefix = common_prefix @ sample_i"

definition report_name :: "string \<Rightarrow> string" where
  "report_name sample_i = ''sample'' @ sample_i @ ''.'' @ sample_i @ ''.report.json''"

definition report_path :: "string \<Rightarrow> string \<Rightarrow> string" where
  "report_path sample_i common_prefix =
     os_path_join (sample_folder sample_i common_prefix) (report_name sample_i)"

text \<open>The result is the document, or \<open>JNull\<close> for Python's \<open>None\<close>.\<close>

definition load_json_report ::
  "(string \<Rightarrow> file_result) \<Rightarrow> string \<Rightarrow> string \<Rightarrow> log_entry list \<times> json" where
  "load_json_report fs sample_i common_prefix =
     (case fs (report_path sample_i common_prefix) of
        Parsed doc \<Rightarrow> ([], doc)
      | FileNotFound \<Rightarrow>
          ([(ERROR, ''FileNotFoundError: Report not found for sample '' @ sample_i @ '' at ''
              @ report_path sample_i common_prefix)], JNull)
      | JSONDecodeError \<Rightarrow>
          ([(ERROR, ''JSONDecodeError: Failed to decode report for sample '' @ sample_i
              @ ''. Error: JSONDecodeError'')], JNull)
      | OtherError \<Rightarrow>
          ([(ERROR, ''An unexpected error occurred while reading report for sample ''
              @ sample_i @ '': Exception'')], JNull))"

subsection \<open>Microorganism extractor\<close>

text \<open>
  A row of the microorganism table. The extractor stores in \<open>alignedReadCount\<close> and
  \<open>predictedPresent\<close> whatever object the report holds (\<open>mo_table\<close>); the plotting code
  of \<open>main.py\<close> works on the table whose \<open>alignedReadCount\<close> column has the dtype
  \<open>int64\<close>, as pandas builds it from integers that fit, and whose \<open>predictedPresent\<close>
  column holds booleans (\<open>mo_frame\<close>).
\<close>

record ('c, 'p) mo_record =
  Sample :: string
  Name :: json
  alignedReadCount :: 'c
  ani :: json
  rpkm :: json
  mo_class :: json
  phenotypicGroup :: json
  predictedPresent :: 'p
  Presence :: json

type_synonym mo_table = "(json, json) mo_record list"

type_synonym mo_frame = "(64 word, bool) mo_record list"

text \<open>The body of the loop over the entries: one row, or the exception it raises.\<close>

definition mo_row :: "string \<Rightarrow> json \<Rightarrow> py_error + (json, json) mo_record" where
  "mo_row sample_i item =
     then_ok (dict_get item ''ani'' (JInt 0)) (\<lambda>ani_v.
     then_ok (dict_get item ''rpkm'' (JInt 0)) (\<lambda>rpkm_v.
     then_ok (dict_get item ''alignedReadCount'' (JInt 0)) (\<lambda>aligned_count.
     then_ok (dict_get item ''explifyInterpretation'' (JObj [])) (\<lambda>interp.
     then_ok (dict_get interp ''predictedPresent'' (JBool False)) (\<lambda>predicted_present.
     then_ok (dict_get item ''name'' JNull) (\<lambda>name_v.
     then_ok (py_round2 ani_v) (\<lambda>ani_r.
     then_ok (py_round2 rpkm_v) (\<lambda>rpkm_r.
     then_ok (dict_get item ''class'' JNull) (\<lambda>class_v.
     then_ok (dict_get item ''phenotypicGroup'' JNull) (\<lambda>group_v.
     then_ok (presence_expr predicted_present aligned_count) (\<lambda>presence.
       Inr \<lparr>Sample = ''sample'' @ sample_i,
            Name = name_v,
            alignedReadCount = aligned_count,
            ani = ani_r,
            rpkm = rpkm_r,
            mo_class = class_v,
            phenotypicGroup = group_v,
            predictedPresent = predicted_present,
            Presence = presence\<rparr>)))))))))))"

fun mo_rows :: "string \<Rightarrow> json list \<Rightarrow> py_error + mo_table" where
  "mo_rows sample_i [] = Inr []"
| "mo_rows sample_i (item # items) =
     then_ok (mo_row sample_i item) (\<lambda>r.
     then_ok (mo_rows sample_i items) (\<lambda>rs. Inr (r # rs)))"

text \<open>
  The \<open>try\<close> block of \<open>process_microorganisms\<close>: the warning and no table when the list is
  missing or empty, the table otherwise, or the exception raised on the way.
\<close>

definition mo_try :: "string \<Rightarrow> json \<Rightarrow> py_error + (log_entry list \<times> mo_table option)" where
  "mo_try sample_i report =
     then_ok (dict_get report ''targetReport'' (JObj [])) (\<lambda>target.
     then_ok (dict_get target ''microorganisms'' (JList [])) (\<lambda>trmo.
       if \<not> truthy trmo
       then Inr ([(WARNING, ''No microorganism data found for sample '' @ sample_i @ ''.'')], None)
       else then_ok (py_iter trmo) (\<lambda>items.
            then_ok (mo_rows sample_i items) (\<lambda>data_rows. Inr ([], Some data_rows)))))"

definition process_microorganisms ::
  "(string \<Rightarrow> file_result) \<Rightarrow> string \<Rightarrow> string \<Rightarrow> log_entry list \<times> mo_table option" where
  "process_microorganisms fs sample_i common_prefix =
     (case load_json_report fs sample_i common_prefix of
        (lg, report) \<Rightarrow>
          if report = JNull then (lg, None)
          else (case mo_try sample_i report of
                  Inr (lg', res) \<Rightarrow> (lg @ lg', res)
                | Inl e \<Rightarrow>
                    (lg @ [(ERROR, ''Error processing microorganism data for sample ''
                             @ sample_i @ '': '' @ exc_text e)], None)))"

subsection \<open>AMR marker extractor\<close>

record amr_record =
  SampleID :: string
  GeneName :: json
  Class :: json
  geneFamily :: json
  Coverage :: json
  medianDepth :: json
  associatedMicroorganisms :: json
  amr_predictedPresent :: json

type_synonym amr_table = "amr_record list"

definition amr_row :: "string \<Rightarrow> json \<Rightarrow> py_error + amr_record" where
  "amr_row sample_i item =
     then_ok (dict_get item ''coverage'' (JInt 0)) (\<lambda>coverage.
     then_ok (dict_get item ''associatedMicroorganisms'' (JObj [])) (\<lambda>assoc.
     then_ok (dict_get assoc ''all'' (JList [JNull])) (\<lambda>all_v.
     then_ok (py_index0 all_v) (\<lambda>associated_mo.
     then_ok (dict_get item ''name'' JNull) (\<lambda>name_v.
     then_ok (dict_get item ''class'' JNull) (\<lambda>class_v.
     then_ok (dict_get item ''geneFamily'' JNull) (\<lambda>family_v.
     then_ok (py_round2 coverage) (\<lambda>coverage_r.
     then_ok (dict_get item ''medianDepth'' JNull) (\<lambda>depth_v.
     then_ok (dict_get item ''explifyInterpretation'' (JObj [])) (\<lambda>interp.
     then_ok (dict_get interp ''predictedPresent'' (JBool False)) (\<lambda>predicted_present.
       Inr \<lparr>SampleID = ''sample'' @ sample_i,
            GeneName = name_v,
            Class = class_v,
            geneFamily = family_v,
            Coverage = coverage_r,
            medianDepth = depth_v,
            associatedMicroorganisms = associated_mo,
            amr_predictedPresent = predicted_present\<rparr>)))))))))))"

fun amr_rows :: "string \<Rightarrow> json list \<Rightarrow> py_error + amr_table" where
  "amr_rows sample_i [] = Inr []"
| "amr_rows sample_i (item # items) =
     then_ok (amr_row sample_i item) (\<lambda>r.
     then_ok (amr_rows sample_i items) (\<lambda>rs. Inr (r # rs)))"

definition amr_try :: "string \<Rightarrow> json \<Rightarrow> py_error + (log_entry list \<times> amr_table option)" where
  "amr_try sample_i report =
     then_ok (dict_get report ''targetReport'' (JObj [])) (\<lambda>target.
     then_ok (dict_get target ''amrMarkers'' (JList [])) (\<lambda>tramr.
       if \<not> truthy tramr
       then Inr ([(WARNING, ''No AMR markers data found for sample '' @ sample_i @ ''.'')], None)
       else then_ok (py_iter tramr) (\<lambda>items.
            then_ok (amr_rows sample_i items) (\<lambda>data_rows. Inr ([], Some data_rows)))))"

definition process_amr_markers ::
  "(string \<Rightarrow> file_result) \<Rightarrow> string \<Rightarrow> string \<Rightarrow> log_entry list \<times> amr_table option" where
  "process_amr_markers fs sample_i common_prefix =
     (case load_json_report fs sample_i common_prefix of
        (lg, report) \<Rightarrow>
          if report = JNull then (lg, None)
          else (case amr_try sample_i report of
                  Inr (lg', res) \<Rightarrow> (lg @ lg', res)
                | Inl e \<Rightarrow>
                    (lg @ [(ERROR, ''Error processing AMR marker data for sample ''
                             @ sample_i @ '': '' @ exc_text e)], None)))"

subsection \<open>Sample discovery\<close>

text \<open>\<open>f.startswith(p)\<close>.\<close>

definition startswith :: "string \<Rightarrow> string \<Rightarrow> bool" where
  "startswith f p = (take (length p) f = p)"

text \<open>
  \<open>os.path.commonprefix\<close>: the empty string for an empty list; otherwise the smallest
  and the largest name (in the order of strings) are compared character by character,
  up to the first difference or the end of the smallest. The smallest name is never
  longer than the part it shares with the largest, so the largest is not read past its
  end.
\<close>

fun common_chars :: "string \<Rightarrow> string \<Rightarrow> string" where
  "common_chars (c # s1) (d # s2) = (if c \<noteq> d then [] else c # common_chars s1 s2)"
| "common_chars _ _ = []"

definition commonprefix :: "string list \<Rightarrow> string" where
  "commonprefix m = (if m = [] then [] else common_chars (Min (set m)) (Max (set m)))"

text \<open>
  \<open>extract_sample_info\<close> reads the working directory: \<open>listing\<close> is what \<open>os.listdir\<close>
  returns and \<open>isdir\<close> what \<open>os.path.isdir\<close> answers. \<open>natsorted\<close> is the natural sort of
  the \<open>natsort\<close> package, taken as a parameter.
\<close>

definition extract_sample_info ::
  "string list \<Rightarrow> (string \<Rightarrow> bool) \<Rightarrow> (string list \<Rightarrow> string list) \<Rightarrow> string list \<times> string" where
  "extract_sample_info listing isdir natsorted =
     (let file_names = filter (\<lambda>f. isdir f \<and> \<not> startswith f ''Results'') listing;
          file_names_ord = natsorted file_names;
          common_prefix = commonprefix file_names_ord;
          sample_names = map (\<lambda>file. drop (length common_prefix) file) file_names_ord
      in (sample_names, common_prefix))"

section \<open>main.py\<close>

subsection \<open>The loop over the samples\<close>

text \<open>
  One turn of the loop of \<open>main\<close>: both extractors are called, and each table that is not
  \<open>None\<close> is appended to its list. The extractors return a value on every input, so the
  \<open>except\<close> clause of the loop is never entered.
\<close>

definition sample_step ::
  "(string \<Rightarrow> file_result) \<Rightarrow> string \<Rightarrow>
   log_entry list \<times> mo_table list \<times> amr_table list \<Rightarrow> string \<Rightarrow>
   log_entry list \<times> mo_table list \<times> amr_table list" where
  "sample_step fs common_prefix acc sample_i =
     (case acc of (lg, all_mo_tables, all_amr_tables) \<Rightarrow>
        (case process_microorganisms fs sample_i common_prefix of (lg_mo, mo_table) \<Rightarrow>
        (case process_amr_markers fs sample_i common_prefix of (lg_amr, amr_table) \<Rightarrow>
           (lg @ lg_mo @ lg_amr,
            (case mo_table of None \<Rightarrow> all_mo_tables | Some t \<Rightarrow> all_mo_tables @ [t]),
            (case amr_table of None \<Rightarrow> all_amr_tables | Some t \<Rightarrow> all_amr_tables @ [t])))))"

definition process_samples ::
  "(string \<Rightarrow> file_result) \<Rightarrow> string \<Rightarrow> string list \<Rightarrow>
   log_entry list \<times> mo_table list \<times> amr_table list" where
  "process_samples fs common_prefix sample_names =
     foldl (sample_step fs common_prefix) ([], [], []) sample_names"

subsection \<open>The run\<close>

text \<open>\<open>pd.concat(tables, ignore_index=True)\<close> raises ValueError on an empty list.\<close>

definition pd_concat :: "'a list list \<Rightarrow> py_error + 'a list" where
  "pd_concat tables = (if tables = [] then Inl ValueError else Inr (concat tables))"

text \<open>
  What a run depends on outside the program: whether creating the result directories
  raises, the working directory, the natural sort, the report files, and what the
  code from the first \<open>to_excel\<close> to the last \<open>move_results\<close> (spreadsheet writer, chart
  functions, file moves) does on the two aggregate tables: the logger calls it makes,
  and the exception it raises, if any.
\<close>

record env =
  setup_error :: "py_error option"
  listing :: "string list"
  isdir :: "string \<Rightarrow> bool"
  natsorted :: "string list \<Rightarrow> string list"
  files :: "string \<Rightarrow> file_result"
  reporting :: "mo_table \<Rightarrow> amr_table \<Rightarrow> log_entry list \<times> py_error option"

text \<open>The two messages \<open>main\<close> prints.\<close>

datatype message = SuccessMessage | FatalMessage

text \<open>
  What a run leaves: the messages printed, the logger calls, and the two aggregate
  tables if the run came to write them.
\<close>

record outcome =
  printed :: "message list"
  logged :: "log_entry list"
  written :: "(mo_table \<times> amr_table) option"

definition fatal :: "log_entry list \<Rightarrow> py_error \<Rightarrow> (mo_table \<times> amr_table) option \<Rightarrow> outcome" where
  "fatal lg e w =
     \<lparr>printed = [FatalMessage],
      logged = lg @ [(CRITICAL, ''A fatal error occurred during main execution: '' @ exc_text e)],
      written = w\<rparr>"

definition main :: "env \<Rightarrow> outcome" where
  "main e =
     (case setup_error e of
        Some err \<Rightarrow>
          fatal [(ERROR, ''Failed to set up environment directories: '' @ exc_text err)] err None
      | None \<Rightarrow>
          (let lg0 = [(INFO, ''Result directories created/verified successfully.'')] in
           case extract_sample_info (listing e) (isdir e) (natsorted e) of
             (sample_names, common_prefix) \<Rightarrow>
               if sample_names = []
               then \<lparr>printed = [],
                     logged = lg0 @ [(WARNING, ''No sample directories found. Exiting.'')],
                     written = None\<rparr>
               else
                 (case process_samples (files e) common_prefix sample_names of
                    (lg1, all_mo_tables, all_amr_tables) \<Rightarrow>
                      if all_mo_tables = [] \<and> all_amr_tables = []
                      then \<lparr>printed = [],
                            logged = lg0 @ lg1 @
                              [(ERROR, ''No data could be processed from any sample. Exiting.'')],
                            written = None\<rparr>
                      else
                        (case then_ok (pd_concat all_mo_tables) (\<lambda>final_mo_df.
                              then_ok (pd_concat all_amr_tables) (\<lambda>final_amr_df.
                                Inr (final_mo_df, final_amr_df))) of
                           Inl err \<Rightarrow> fatal (lg0 @ lg1) err None
                         | Inr (final_mo_df, final_amr_df) \<Rightarrow>
                             (case reporting e final_mo_df final_amr_df of
                                (lg2, Some err) \<Rightarrow>
                                  fatal (lg0 @ lg1 @ lg2) err (Some (final_mo_df, final_amr_df))
                              | (lg2, None) \<Rightarrow>
                                  \<lparr>printed = [SuccessMessage],
                                   logged = lg0 @ lg1 @ lg2 @
                                     [(INFO, ''Processing complete. Check 'processing_errors.log' for details.'')],
                                   written = Some (final_mo_df, final_amr_df)\<rparr>)))))"

subsection \<open>Per-sample totals and relative abundance\<close>

text \<open>
  \<open>final_mo_df.groupby('Sample')['alignedReadCount'].sum().to_dict()\<close>: one pass over the
  rows, adding each count to the entry of its sample. The column is \<open>int64\<close> and the sum
  is taken in \<open>int64\<close>, so it wraps around; \<open>to_dict\<close> returns the sums as Python
  integers. \<open>main\<close> binds \<open>total_reads_dict\<close> to this map.
\<close>

definition add_reads ::
  "(string \<rightharpoonup> 64 word) \<Rightarrow> (64 word, bool) mo_record \<Rightarrow> (string \<rightharpoonup> 64 word)" where
  "add_reads m r =
     m(Sample r \<mapsto> (case m (Sample r) of None \<Rightarrow> alignedReadCount r
                                       | Some t \<Rightarrow> t + alignedReadCount r))"

definition groupby_Sample_sum :: "mo_frame \<Rightarrow> (string \<rightharpoonup> int)" where
  "groupby_Sample_sum final_mo_df =
     (\<lambda>sample_name. map_option sint (foldl add_reads Map.empty final_mo_df sample_name))"

text \<open>\<open>Series.unique()\<close>: the distinct values in order of first appearance.\<close>

fun unique :: "'a list \<Rightarrow> 'a list" where
  "unique [] = []"
| "unique (x # xs) = x # unique (filter (\<lambda>y. y \<noteq> x) xs)"

text \<open>
  A row of \<open>sample_df\<close> once the percentage column is added.
  \<open>(sample_df['alignedReadCount'] / total_reads) * 100\<close> is computed in doubles: the count
  and the total are converted, divided, and the quotient is multiplied by 100.
\<close>

record abundance_row =
  row_Sample :: string
  row_Name :: json
  row_alignedReadCount :: "64 word"
  relativeAbundance :: rat

definition percentage :: "int \<Rightarrow> int \<Rightarrow> rat" where
  "percentage aligned_count total_reads =
     float64 (float64 (float64 (of_int aligned_count) / float64 (of_int total_reads)) * 100)"

definition with_abundance :: "int \<Rightarrow> (64 word, bool) mo_record \<Rightarrow> abundance_row" where
  "with_abundance total_reads r =
     \<lparr>row_Sample = Sample r,
      row_Name = Name r,
      row_alignedReadCount = alignedReadCount r,
      relativeAbundance = percentage (sint (alignedReadCount r)) total_reads\<rparr>"

text \<open>
  What \<open>plot_relative_abundance\<close> produces: the paths of the charts it saved, the rows
  each saved chart shows (by sample), and its logger calls.
\<close>

record abundance_result =
  plot_paths :: "string list"
  charts :: "(string \<times> abundance_row list) list"
  plot_log :: "log_entry list"

text \<open>
  One turn of the loop over the samples that have a predicted-present organism.
  \<open>sort_values\<close> is \<open>DataFrame.sort_values('relativeAbundance(%)', ascending=False)\<close> of
  pandas, with the default sorting algorithm; it is a parameter. So is \<open>render\<close>, the
  calls of the chart library from \<open>plt.figure\<close> to \<open>plt.close\<close> on the sample's name and
  sorted rows: it returns the exception raised, if any, and then the \<open>except\<close> clause
  logs an error and the loop goes on without a path for the sample.
\<close>

definition skip_message :: "string \<Rightarrow> log_entry" where
  "skip_message sample_name =
     (WARNING, ''Skipping relative abundance plot for '' @ sample_name
        @ '': Total reads not found or zero.'')"

definition abundance_step ::
  "(abundance_row list \<Rightarrow> abundance_row list) \<Rightarrow>
   (string \<Rightarrow> abundance_row list \<Rightarrow> py_error option) \<Rightarrow> mo_frame \<Rightarrow> (string \<rightharpoonup> int) \<Rightarrow>
   abundance_result \<Rightarrow> string \<Rightarrow> abundance_result" where
  "abundance_step sort_values render df_present_mo total_reads_dict acc sample_name =
     (let sample_df = filter (\<lambda>r. Sample r = sample_name) df_present_mo;
          total_reads = total_reads_dict sample_name
      in case total_reads of
           Some t \<Rightarrow>
             if t \<noteq> 0 \<and> 0 < t
             then (let sorted_df = sort_values (map (with_abundance t) sample_df)
                   in case render sample_name sorted_df of
                        None \<Rightarrow>
                          acc\<lparr>plot_paths := plot_paths acc @
                                 [''normalised_relativeAbundance_'' @ sample_name @ ''.jpg''],
                               charts := charts acc @ [(sample_name, sorted_df)]\<rparr>
                      | Some err \<Rightarrow>
                          acc\<lparr>plot_log := plot_log acc @
                                 [(ERROR, ''Error plotting relative abundance for sample ''
                                    @ sample_name @ '': '' @ exc_text err)]\<rparr>)
             else acc\<lparr>plot_log := plot_log acc @ [skip_message sample_name]\<rparr>
         | None \<Rightarrow> acc\<lparr>plot_log := plot_log acc @ [skip_message sample_name]\<rparr>)"

definition plot_relative_abundance ::
  "(abundance_row list \<Rightarrow> abundance_row list) \<Rightarrow>
   (string \<Rightarrow> abundance_row list \<Rightarrow> py_error option) \<Rightarrow> mo_frame \<Rightarrow> (string \<rightharpoonup> int) \<Rightarrow>
   abundance_result" where
  "plot_relative_abundance sort_values render df total_reads_dict =
     (let df_present_mo = filter (\<lambda>r. predictedPresent r = True) df;
          sample_with_present_mo = unique (map Sample df_present_mo)
      in foldl (abundance_step sort_values render df_present_mo total_reads_dict)
           \<lparr>plot_paths = [], charts = [], plot_log = []\<rparr> sample_with_present_mo)"

section \<open>The specification's reading of an entry\<close>

text \<open>
  The two fields the derived presence flag is computed from, as the specification words
  them: the predicted-present flag, false when absent, and the aligned read count, 0
  when absent. Each is defined when the entry holds a value of the field's type
  (a boolean, an integer) or does not have the field.
\<close>

definition spec_predicted :: "(string \<times> json) list \<Rightarrow> bool option" where
  "spec_predicted kvs =
     (case map_of kvs ''explifyInterpretation'' of
        None \<Rightarrow> Some False
      | Some (JObj e) \<Rightarrow>
          (case map_of e ''predictedPresent'' of
             None \<Rightarrow> Some False
           | Some (JBool b) \<Rightarrow> Some b
           | Some _ \<Rightarrow> None)
      | Some _ \<Rightarrow> None)"

definition spec_count :: "(string \<times> json) list \<Rightarrow> int option" where
  "spec_count kvs =
     (case map_of kvs ''alignedReadCount'' of
        None \<Rightarrow> Some 0
      | Some (JInt n) \<Rightarrow> Some n
      | Some _ \<Rightarrow> None)"

text \<open>
  The per-sample total as the specification words it: the sum of the aligned read counts
  of all the microorganism records of the sample, present or not.
\<close>

definition sample_total :: "mo_frame \<Rightarrow> string \<Rightarrow> int" where
  "sample_total df s = sum_list (map (\<lambda>r. sint (alignedReadCount r)) (filter (\<lambda>r. Sample r = s) df))"

text \<open>The value an \<open>int64\<close> holds after an integer is stored in it modulo \<open>2 ^ 64\<close>.\<close>

definition int64 :: "int \<Rightarrow> int" where
  "int64 n = sint (word_of_int n :: 64 word)"

section \<open>Auxiliary definitions for the proofs\<close>

text \<open>
  What one turn of the loop of \<open>plot_relative_abundance\<close> adds to the charts and to the
  logger calls.
\<close>

definition chart_of ::
  "(abundance_row list \<Rightarrow> abundance_row list) \<Rightarrow>
   (string \<Rightarrow> abundance_row list \<Rightarrow> py_error option) \<Rightarrow> mo_frame \<Rightarrow> (string \<rightharpoonup> int) \<Rightarrow>
   string \<Rightarrow> (string \<times> abundance_row list) list" where
  "chart_of srt render dfp d s =
     (case d s of
        Some t \<Rightarrow>
          if 0 < t \<and> render s (srt (map (with_abundance t) (filter (\<lambda>r. Sample r = s) dfp))) = None
          then [(s, srt (map (with_abundance t) (filter (\<lambda>r. Sample r = s) dfp)))] else []
      | None \<Rightarrow> [])"


section \<open>Example reports\<close>

text \<open>
  A report of the directory \<open>sample1\<close> (prefix \<open>sample\<close>, identifier \<open>1\<close>) with four
  entries: a count of 6 and of 5 without the flag set, a flagged entry without a count,
  and an entry with neither field.
\<close>

definition entry_six :: json where
  "entry_six = JObj [(''name'', JStr ''Escherichia coli''), (''alignedReadCount'', JInt 6),
     (''explifyInterpretation'', JObj [(''predictedPresent'', JBool False)])]"

definition entry_five :: json where
  "entry_five = JObj [(''name'', JStr ''Klebsiella pneumoniae''), (''alignedReadCount'', JInt 5),
     (''explifyInterpretation'', JObj [(''predictedPresent'', JBool False)])]"

definition entry_no_count :: json where
  "entry_no_count = JObj [(''name'', JStr ''Candida albicans''),
     (''explifyInterpretation'', JObj [(''predictedPresent'', JBool True)])]"

definition entry_bare :: json where
  "entry_bare = JObj [(''name'', JStr ''Proteus mirabilis'')]"

definition presence_report :: json where
  "presence_report = JObj [(''targetReport'',
     JObj [(''microorganisms'', JList [entry_six, entry_five, entry_no_count, entry_bare])])]"

definition presence_fs :: "string \<Rightarrow> file_result" where
  "presence_fs p = (if p = ''sample1/sample1.1.report.json'' then Parsed presence_report else FileNotFound)"

text \<open>
  Example tables for the plotting code, with a sort by descending percentage (the stable
  insertion sort of the library) and a chart library that never raises to run it with.
\<close>

definition by_percentage_desc :: "abundance_row list \<Rightarrow> abundance_row list" where
  "by_percentage_desc rows = sort_key (\<lambda>r. - relativeAbundance r) rows"

definition renders :: "string \<Rightarrow> abundance_row list \<Rightarrow> py_error option" where
  "renders sample_name rows = None"

definition frame_row :: "string \<Rightarrow> string \<Rightarrow> int \<Rightarrow> bool \<Rightarrow> (64 word, bool) mo_record" where
  "frame_row s n c p =
     \<lparr>Sample = s, Name = JStr n, alignedReadCount = word_of_int c, ani = JInt 0, rpkm = JInt 0,
      mo_class = JNull, phenotypicGroup = JNull, predictedPresent = p,
      Presence = JBool (p \<or> 5 < c)\<rparr>"

definition batch_frame :: mo_frame where
  "batch_frame =
     [frame_row ''sample1'' ''Escherichia coli'' 80 True,
      frame_row ''sample1'' ''Klebsiella pneumoniae'' 20 False]"


definition seven_frame :: mo_frame where
  "seven_frame =
     [frame_row ''sample1'' ''Escherichia coli'' 7 True,
      frame_row ''sample1'' ''Klebsiella pneumoniae'' 18 False]"

definition huge_frame :: mo_frame where
  "huge_frame =
     [frame_row ''sample1'' ''Escherichia coli'' (2 ^ 62) True,
      frame_row ''sample1'' ''Klebsiella pneumoniae'' (2 ^ 62) False]"

text \<open>
  Three AMR markers (one with an associated organism, one whose list of associated
  organisms is present and empty, one without the list) and a report of \<open>sample1\<close>
  holding them; a microorganism entry whose \<open>ani\<close> is \<open>null\<close> and a report holding it
  between two well-formed entries; a report of the directory \<open>batch1\<close> (prefix \<open>batch\<close>,
  identifier \<open>1\<close>) with both lists.
\<close>

definition marker_empty_list :: json where
  "marker_empty_list = JObj [(''name'', JStr ''blaTEM''), (''coverage'', JInt 97),
     (''associatedMicroorganisms'', JObj [(''all'', JList [])])]"

definition marker_no_list :: json where
  "marker_no_list = JObj [(''name'', JStr ''mecA''), (''coverage'', JInt 88)]"

definition marker_listed :: json where
  "marker_listed = JObj [(''name'', JStr ''vanA''), (''coverage'', JInt 91),
     (''associatedMicroorganisms'', JObj [(''all'', JList [JStr ''Enterococcus faecium''])])]"

definition empty_list_report :: json where
  "empty_list_report = JObj [(''targetReport'',
     JObj [(''amrMarkers'', JList [marker_listed, marker_empty_list, marker_no_list])])]"

definition empty_list_fs :: "string \<Rightarrow> file_result" where
  "empty_list_fs p =
     (if p = ''sample1/sample1.1.report.json'' then Parsed empty_list_report else FileNotFound)"

definition entry_null_ani :: json where
  "entry_null_ani = JObj [(''name'', JStr ''Staphylococcus aureus''), (''alignedReadCount'', JInt 40),
     (''ani'', JNull)]"

definition null_ani_report :: json where
  "null_ani_report = JObj [(''targetReport'',
     JObj [(''microorganisms'', JList [entry_six, entry_null_ani, entry_five])])]"

definition null_ani_fs :: "string \<Rightarrow> file_result" where
  "null_ani_fs p =
     (if p = ''sample1/sample1.1.report.json'' then Parsed null_ani_report else FileNotFound)"

definition batch_report :: json where
  "batch_report = JObj [(''targetReport'',
     JObj [(''microorganisms'', JList [entry_six, entry_no_count]),
           (''amrMarkers'', JList [marker_listed, marker_no_list])])]"

definition batch_fs :: "string \<Rightarrow> file_result" where
  "batch_fs p =
     (if p = ''batch1/sample1.1.report.json'' then Parsed batch_report else FileNotFound)"

text \<open>
  Two working directories, one with the sample directories \<open>batch1\<close> and \<open>batch2\<close> and
  one with the single sample directory \<open>run_A\<close>, each beside the \<open>Results\<close> directory and
  a plain file; a run in the first one where no report file exists. The library's
  \<open>sort\<close> stands for the natural sort.
\<close>

definition folder_listing :: "string list" where
  "folder_listing = [''batch1'', ''Results'', ''batch2'', ''notes.txt'']"

definition single_listing :: "string list" where
  "single_listing = [''Results'', ''run_A'', ''notes.txt'']"

definition not_the_notes :: "string \<Rightarrow> bool" where
  "not_the_notes f = (f \<noteq> ''notes.txt'')"

definition missing_env :: env where
  "missing_env =
     \<lparr>setup_error = None, listing = folder_listing, isdir = not_the_notes, natsorted = sort,
      files = (\<lambda>p. FileNotFound), reporting = (\<lambda>mo amr. ([], None))\<rparr>"

section \<open>Properties of the microorganism extractor\<close>

lemma then_ok_Inr: "then_ok r f = Inr y \<longleftrightarrow> (\<exists>v. r = Inr v \<and> f v = Inr y)"
  by (cases r) (simp_all add: then_ok_def)

lemma dict_get_Inr: "dict_get x k d = Inr v \<Longrightarrow> \<exists>kvs. x = JObj kvs \<and> v = (case map_of kvs k of None \<Rightarrow> d | Some w \<Rightarrow> w)"
  by (cases x) auto

lemma mo_row_fields:
  assumes "mo_row sample_i item = Inr r"
  shows "\<exists>kvs interp. item = JObj kvs
     \<and> Sample r = ''sample'' @ sample_i
     \<and> alignedReadCount r = (case map_of kvs ''alignedReadCount'' of None \<Rightarrow> JInt 0 | Some w \<Rightarrow> w)
     \<and> dict_get item ''explifyInterpretation'' (JObj []) = Inr interp
     \<and> dict_get interp ''predictedPresent'' (JBool False) = Inr (predictedPresent r)
     \<and> presence_expr (predictedPresent r) (alignedReadCount r) = Inr (Presence r)"
  using assms unfolding mo_row_def then_ok_Inr
  by (cases item) auto

lemma mo_rows_nth:
  "mo_rows sample_i items = Inr rs \<Longrightarrow>
     length rs = length items \<and> (\<forall>i < length items. mo_row sample_i (items ! i) = Inr (rs ! i))"
proof (induction items arbitrary: rs)
  case Nil
  then show ?case by simp
next
  case (Cons item items)
  then obtain r rs' where r: "mo_row sample_i item = Inr r" and rs': "mo_rows sample_i items = Inr rs'"
    and eq: "rs = r # rs'"
    by (auto simp: then_ok_Inr)
  from Cons.IH[OF rs'] r eq show ?case
    by (auto simp: nth_Cons split: nat.splits)
qed

lemma presence_typed:
  assumes "mo_row sample_i (JObj kvs) = Inr r" "spec_predicted kvs = Some b" "spec_count kvs = Some n"
  shows "Presence r = JBool (b \<or> 5 < n)"
proof -
  from mo_row_fields[OF assms(1)] obtain interp where
    c: "alignedReadCount r = (case map_of kvs ''alignedReadCount'' of None \<Rightarrow> JInt 0 | Some w \<Rightarrow> w)"
    and i: "dict_get (JObj kvs) ''explifyInterpretation'' (JObj []) = Inr interp"
    and p: "dict_get interp ''predictedPresent'' (JBool False) = Inr (predictedPresent r)"
    and e: "presence_expr (predictedPresent r) (alignedReadCount r) = Inr (Presence r)"
    by auto
  from assms(3) c have c': "alignedReadCount r = JInt n"
    by (auto simp: spec_count_def split: option.splits json.splits)
  from assms(2) i p have p': "predictedPresent r = JBool b"
    by (auto simp: spec_predicted_def split: option.splits json.splits)
  from e show ?thesis unfolding c' p' by (auto simp: presence_expr_def split: if_splits)
qed

lemma mo_try_Some:
  assumes "mo_try sample_i report = Inr (lg, Some tbl)"
  shows "\<exists>top target items.
           report = JObj top
         \<and> map_of top ''targetReport'' = Some (JObj target)
         \<and> map_of target ''microorganisms'' = Some (JList items)
         \<and> lg = []
         \<and> mo_rows sample_i items = Inr tbl"
proof -
  from assms have "\<exists>target trmo items.
      dict_get report ''targetReport'' (JObj []) = Inr target
    \<and> dict_get target ''microorganisms'' (JList []) = Inr trmo
    \<and> truthy trmo \<and> py_iter trmo = Inr items \<and> mo_rows sample_i items = Inr tbl \<and> lg = []"
    by (auto simp: mo_try_def then_ok_Inr split: if_splits)
  then obtain target trmo items where
    t: "dict_get report ''targetReport'' (JObj []) = Inr target"
    and m: "dict_get target ''microorganisms'' (JList []) = Inr trmo"
    and tr: "truthy trmo"
    and it: "py_iter trmo = Inr items" and rows: "mo_rows sample_i items = Inr tbl"
    and lg: "lg = []"
    by blast
  from tr it have ne: "items \<noteq> []" by (cases trmo) auto
  have "\<exists>xs. trmo = JList xs"
  proof (cases trmo)
    case (JObj kvs)
    with it ne obtain k kvs' where "items = JStr k # kvs'"
      by (cases kvs) auto
    with rows show ?thesis by (auto simp: then_ok_Inr mo_row_def)
  next
    case (JStr s)
    with it ne obtain c s' where "items = JStr c # s'"
      by (cases s) auto
    with rows show ?thesis by (auto simp: then_ok_Inr mo_row_def)
  qed (use it in auto)
  with it have trmo: "trmo = JList items" by auto
  from t obtain top where top: "report = JObj top"
    and target: "target = (case map_of top ''targetReport'' of None \<Rightarrow> JObj [] | Some w \<Rightarrow> w)"
    by (auto dest: dict_get_Inr)
  from m obtain tkv where tkv: "target = JObj tkv"
    and trmo': "trmo = (case map_of tkv ''microorganisms'' of None \<Rightarrow> JList [] | Some w \<Rightarrow> w)"
    by (auto dest: dict_get_Inr)
  from trmo' trmo ne have 1: "map_of tkv ''microorganisms'' = Some (JList items)"
    by (auto split: option.splits)
  from target tkv 1 have 2: "map_of top ''targetReport'' = Some (JObj tkv)"
    by (auto split: option.splits)
  from top 1 2 lg rows show ?thesis by blast
qed

lemma process_microorganisms_Some:
  assumes "process_microorganisms fs sample_i common_prefix = (lg, Some tbl)"
  shows "\<exists>report. fs (report_path sample_i common_prefix) = Parsed report
           \<and> mo_try sample_i report = Inr ([], Some tbl)"
  using assms unfolding process_microorganisms_def load_json_report_def
  by (auto split: file_result.splits if_splits sum.splits dest: mo_try_Some)

text \<open>
  C1. Whenever \<open>process_microorganisms\<close> returns a table, the report holds a list of
  entries under \<open>targetReport.microorganisms\<close>, the table has one row per entry in the
  same order, and for every entry whose predicted-present flag and aligned read count
  are of their types or absent (defaulting to false and 0), the row's \<open>Presence\<close> is
  the flag or-ed with "the count is greater than 5".
\<close>

theorem presence_flag:
  assumes "process_microorganisms fs sample_i common_prefix = (lg, Some tbl)"
  shows "\<exists>top target items.
           fs (report_path sample_i common_prefix) = Parsed (JObj top)
         \<and> map_of top ''targetReport'' = Some (JObj target)
         \<and> map_of target ''microorganisms'' = Some (JList items)
         \<and> length tbl = length items
         \<and> (\<forall>i<length items. \<exists>kvs. items ! i = JObj kvs \<and>
              (\<forall>b n. spec_predicted kvs = Some b \<longrightarrow> spec_count kvs = Some n
                 \<longrightarrow> Presence (tbl ! i) = JBool (b \<or> 5 < n)))"
proof -
  from process_microorganisms_Some[OF assms] obtain report where
    f: "fs (report_path sample_i common_prefix) = Parsed report"
    and t: "mo_try sample_i report = Inr ([], Some tbl)" by blast
  from mo_try_Some[OF t] obtain top target items where
    top: "report = JObj top"
    and 1: "map_of top ''targetReport'' = Some (JObj target)"
    and 2: "map_of target ''microorganisms'' = Some (JList items)"
    and rows: "mo_rows sample_i items = Inr tbl" by blast
  from mo_rows_nth[OF rows] have len: "length tbl = length items"
    and nth: "\<And>i. i < length items \<Longrightarrow> mo_row sample_i (items ! i) = Inr (tbl ! i)" by auto
  have "\<exists>kvs. items ! i = JObj kvs \<and>
              (\<forall>b n. spec_predicted kvs = Some b \<longrightarrow> spec_count kvs = Some n
                 \<longrightarrow> Presence (tbl ! i) = JBool (b \<or> 5 < n))" if "i < length items" for i
  proof -
    from mo_row_fields[OF nth[OF that]] obtain kvs where k: "items ! i = JObj kvs" by blast
    with nth[OF that] presence_typed show ?thesis by auto
  qed
  with f top 1 2 len show ?thesis by blast
qed

lemma report_path_sample1: "report_path ''1'' ''sample'' = ''sample1/sample1.1.report.json''"
  by (simp add: report_path_def sample_folder_def report_name_def os_path_join_def)

text \<open>
  On the example report: a count of 6 without the flag gives \<open>True\<close>, a count of 5
  gives \<open>False\<close>, an absent count leaves the flag alone (\<open>True\<close> when set, \<open>False\<close> when
  the flag is absent too).
\<close>

theorem presence_flag_witness:
  "\<exists>tbl. process_microorganisms presence_fs ''1'' ''sample'' = ([], Some tbl)
     \<and> Presence (tbl ! 0) = JBool True
     \<and> Presence (tbl ! 1) = JBool False
     \<and> Presence (tbl ! 2) = JBool True
     \<and> Presence (tbl ! 3) = JBool False"
proof -
  have "\<exists>tbl. process_microorganisms presence_fs ''1'' ''sample'' = ([], Some tbl)"
    by (simp add: process_microorganisms_def load_json_report_def report_path_sample1
        presence_fs_def presence_report_def mo_try_def then_ok_def mo_row_def presence_expr_def
        entry_six_def entry_five_def entry_no_count_def entry_bare_def)
  then obtain tbl where h: "process_microorganisms presence_fs ''1'' ''sample'' = ([], Some tbl)" ..
  from presence_flag[OF h] obtain top target items where
    f: "presence_fs (report_path ''1'' ''sample'') = Parsed (JObj top)"
    and 1: "map_of top ''targetReport'' = Some (JObj target)"
    and 2: "map_of target ''microorganisms'' = Some (JList items)"
    and p: "\<forall>i<length items. \<exists>kvs. items ! i = JObj kvs \<and>
              (\<forall>b n. spec_predicted kvs = Some b \<longrightarrow> spec_count kvs = Some n
                 \<longrightarrow> Presence (tbl ! i) = JBool (b \<or> 5 < n))"
    by blast
  from f have top: "top = [(''targetReport'',
     JObj [(''microorganisms'', JList [entry_six, entry_five, entry_no_count, entry_bare])])]"
    by (simp add: report_path_sample1 presence_fs_def presence_report_def)
  from 1 have target: "target = [(''microorganisms'', JList [entry_six, entry_five, entry_no_count, entry_bare])]"
    unfolding top by simp
  from 2 have items: "items = [entry_six, entry_five, entry_no_count, entry_bare]"
    unfolding target by simp
  have pi: "Presence (tbl ! i) = JBool (b \<or> 5 < n)"
    if "i < length items" "items ! i = JObj kvs" "spec_predicted kvs = Some b" "spec_count kvs = Some n"
    for i kvs b n
    using p that by fastforce
  have p0: "Presence (tbl ! 0) = JBool True"
    using pi[of 0 _ False 6] by (simp add: items entry_six_def spec_predicted_def spec_count_def)
  have p1: "Presence (tbl ! 1) = JBool False"
    using pi[of 1 _ False 5] by (simp add: items entry_five_def spec_predicted_def spec_count_def)
  have p2: "Presence (tbl ! 2) = JBool True"
    using pi[of 2 _ True 0] by (simp add: items entry_no_count_def spec_predicted_def spec_count_def)
  have p3: "Presence (tbl ! 3) = JBool False"
    using pi[of 3 _ False 0] by (simp add: items entry_bare_def spec_predicted_def spec_count_def)
  from h p0 p1 p2 p3 show ?thesis by blast
qed

section \<open>Rounding error of the doubles\<close>

text \<open>
  Rounding to the nearest double changes a number by at most \<open>2 ^ -53\<close> of its size, and
  the percentage, which rounds four times, by at most \<open>2 ^ -50\<close> of the exact value.
\<close>

lemma two_pow_powi: "two_pow k = 2 powi k"
  by (simp add: two_pow_def power_int_def field_simps)

lemma two_pow_pos: "0 < two_pow k"
  by (simp add: two_pow_powi)

lemma round_half_even_near: "\<bar>of_int (round_half_even y) - y\<bar> \<le> 1 / 2"
proof -
  have "of_int \<lfloor>y\<rfloor> \<le> y" and "y < of_int \<lfloor>y\<rfloor> + 1"
    by linarith+
  then show ?thesis
    unfolding round_half_even_def Let_def by (auto simp: abs_le_iff)
qed

lemma floor_log2_le:
  assumes "0 < x"
  shows "two_pow (floor_log2 x) \<le> x"
proof -
  obtain p q where pq: "quotient_of x = (p, q)" by (cases "quotient_of x")
  then have q: "0 < q" and x: "x = of_int p / of_int q"
    by (auto dest: quotient_of_denom_pos quotient_of_div)
  with assms have p: "0 < p"
    by (simp add: zero_less_divide_iff)
  let ?k = "bitlen p - bitlen q"
  from bitlen_bounds[OF p] have lo: "2 ^ nat (bitlen p - 1) \<le> p" by simp
  from bitlen_bounds[OF q] have hi: "q < 2 ^ nat (bitlen q)" by simp
  have bp: "1 \<le> bitlen p" and bq: "1 \<le> bitlen q"
    using p q by (simp_all add: bitlen_def floorlog_def)
  have lo': "(2::rat) powi (bitlen p - 1) \<le> of_int p"
  proof -
    have "(2::rat) powi (bitlen p - 1) = 2 ^ nat (bitlen p - 1)"
      using bp by (simp add: power_int_def)
    also have "\<dots> = of_int (2 ^ nat (bitlen p - 1))" by simp
    also have "\<dots> \<le> of_int p" using lo by (simp only: of_int_le_iff)
    finally show ?thesis .
  qed
  have hi': "of_int q \<le> (2::rat) powi (bitlen q)"
  proof -
    have "(of_int q :: rat) \<le> of_int (2 ^ nat (bitlen q))" using hi by (simp only: of_int_le_iff)
    also have "\<dots> = 2 powi (bitlen q)" using bq by (simp add: power_int_def)
    finally show ?thesis .
  qed
  have "(2::rat) powi (?k - 1) = 2 powi ((bitlen p - 1) - bitlen q)"
    by (rule arg_cong[of _ _ "\<lambda>k. 2 powi k"]) simp
  also have "\<dots> = 2 powi (bitlen p - 1) / 2 powi (bitlen q)"
    by (rule power_int_diff) simp
  also have "\<dots> \<le> of_int p / of_int q"
    using lo' hi' q p by (intro frac_le) simp_all
  finally have k1: "two_pow (?k - 1) \<le> x" by (simp add: two_pow_powi x)
  show ?thesis
    using k1 pq by (simp add: floor_log2_def Let_def)
qed

lemma float64_near:
  "\<bar>float64 x - x\<bar> \<le> \<bar>x\<bar> / 2 ^ 53"
proof (cases "x = 0")
  case True
  then show ?thesis by (simp add: float64_def)
next
  case False
  define e where "e = floor_log2 \<bar>x\<bar>"
  define ulp where "ulp = two_pow (e - 52)"
  have up: "0 < ulp" by (simp add: ulp_def two_pow_pos)
  have fl: "float64 x = of_int (round_half_even (x / ulp)) * ulp"
    using False by (simp add: float64_def Let_def ulp_def e_def)
  have "float64 x - x = (of_int (round_half_even (x / ulp)) - x / ulp) * ulp"
    using up by (simp add: fl left_diff_distrib)
  then have "\<bar>float64 x - x\<bar> = \<bar>of_int (round_half_even (x / ulp)) - x / ulp\<bar> * ulp"
    using up by (simp add: abs_mult)
  also have "\<dots> \<le> (1 / 2) * ulp"
    using round_half_even_near[of "x / ulp"] up by (intro mult_right_mono) simp_all
  also have "\<dots> = two_pow e / 2 ^ 53"
    by (simp add: ulp_def two_pow_powi power_int_diff)
  also have "\<dots> \<le> \<bar>x\<bar> / 2 ^ 53"
    using floor_log2_le[of "\<bar>x\<bar>"] False by (simp add: e_def divide_right_mono)
  finally show ?thesis .
qed


lemma float64_rel: "\<exists>\<delta>. float64 x = x * (1 + \<delta>) \<and> \<bar>\<delta>\<bar> \<le> 1 / 2 ^ 53"
proof (cases "x = 0")
  case True
  then show ?thesis by (auto simp: float64_def intro: exI[of _ 0])
next
  case False
  let ?d = "(float64 x - x) / x"
  have 1: "float64 x = x * (1 + ?d)" using False by (simp add: field_simps)
  have "\<bar>?d\<bar> = \<bar>float64 x - x\<bar> / \<bar>x\<bar>" by simp
  also have "\<dots> \<le> (\<bar>x\<bar> / 2 ^ 53) / \<bar>x\<bar>"
    using float64_near[of x] False by (intro divide_right_mono) simp_all
  also have "\<dots> = 1 / 2 ^ 53" using False by simp
  finally have 2: "\<bar>?d\<bar> \<le> 1 / 2 ^ 53" .
  from 1 2 show ?thesis by blast
qed

lemma factor_bound:
  fixes d1 d2 d3 d4 :: rat
  assumes "\<bar>d1\<bar> \<le> 1 / 2 ^ 53" "\<bar>d2\<bar> \<le> 1 / 2 ^ 53" "\<bar>d3\<bar> \<le> 1 / 2 ^ 53" "\<bar>d4\<bar> \<le> 1 / 2 ^ 53"
  shows "\<bar>(1 + d1) * (1 + d3) * (1 + d4) / (1 + d2) - 1\<bar> \<le> 1 / 2 ^ 50"
proof -
  define lo :: rat where "lo = 1 - 1 / 2 ^ 53"
  define hi :: rat where "hi = 1 + 1 / 2 ^ 53"
  have lo0: "0 < lo" by (simp add: lo_def)
  have b1: "lo \<le> 1 + d1" "1 + d1 \<le> hi" using assms(1) by (simp_all add: lo_def hi_def abs_le_iff)
  have b2: "lo \<le> 1 + d2" "1 + d2 \<le> hi" using assms(2) by (simp_all add: lo_def hi_def abs_le_iff)
  have b3: "lo \<le> 1 + d3" "1 + d3 \<le> hi" using assms(3) by (simp_all add: lo_def hi_def abs_le_iff)
  have b4: "lo \<le> 1 + d4" "1 + d4 \<le> hi" using assms(4) by (simp_all add: lo_def hi_def abs_le_iff)
  let ?N = "(1 + d1) * (1 + d3) * (1 + d4)"
  have p1: "0 < 1 + d1" "0 < 1 + d2" "0 < 1 + d3" "0 < 1 + d4"
    using lo0 b1 b2 b3 b4 by linarith+
  have N_hi: "?N \<le> hi * hi * hi"
    using b1 b3 b4 p1 by (intro mult_mono) (auto intro: order.strict_implies_order mult_nonneg_nonneg)
  have N_lo: "lo * lo * lo \<le> ?N"
    using b1 b3 b4 lo0 by (intro mult_mono) (auto intro: order.strict_implies_order mult_nonneg_nonneg)
  have N_pos: "0 < ?N" using p1 by simp
  have F_hi: "?N / (1 + d2) \<le> hi * hi * hi / lo"
    using N_hi b2 lo0 N_pos by (intro frac_le) (auto intro: order.strict_implies_order)
  have F_lo: "lo * lo * lo / hi \<le> ?N / (1 + d2)"
    using N_lo b2 lo0 p1 by (intro frac_le) (auto intro: order.strict_implies_order)
  have c_hi: "hi * hi * hi / lo \<le> 1 + 1 / 2 ^ 50" by (simp add: hi_def lo_def)
  have c_lo: "1 - 1 / 2 ^ 50 \<le> lo * lo * lo / hi" by (simp add: hi_def lo_def)
  have u: "?N / (1 + d2) \<le> 1 + 1 / 2 ^ 50" using F_hi c_hi by (rule order_trans)
  have l: "1 - 1 / 2 ^ 50 \<le> ?N / (1 + d2)" using c_lo F_lo by (rule order_trans)
  show ?thesis unfolding abs_le_iff using u l by linarith
qed

lemma percentage_near:
  assumes "0 < t"
  shows "\<bar>percentage c t - 100 * of_int c / of_int t\<bar> \<le> (100 * \<bar>of_int c\<bar> / of_int t) / 2 ^ 50"
proof -
  define C T :: rat where "C = of_int c" and "T = of_int t"
  have T: "0 < T" using assms by (simp add: T_def)
  obtain d1 where a: "float64 C = C * (1 + d1)" and d1: "\<bar>d1\<bar> \<le> 1 / 2 ^ 53"
    using float64_rel by blast
  obtain d2 where b: "float64 T = T * (1 + d2)" and d2: "\<bar>d2\<bar> \<le> 1 / 2 ^ 53"
    using float64_rel by blast
  obtain d3 where r: "float64 (float64 C / float64 T) = float64 C / float64 T * (1 + d3)"
    and d3: "\<bar>d3\<bar> \<le> 1 / 2 ^ 53"
    using float64_rel by blast
  obtain d4 where p: "float64 (float64 (float64 C / float64 T) * 100) =
      float64 (float64 C / float64 T) * 100 * (1 + d4)" and d4: "\<bar>d4\<bar> \<le> 1 / 2 ^ 53"
    using float64_rel by blast
  have d2p: "0 < 1 + d2" using d2 by (simp add: abs_le_iff) 
  let ?F = "(1 + d1) * (1 + d3) * (1 + d4) / (1 + d2)"
  have "percentage c t = float64 (float64 (float64 C / float64 T) * 100)"
    by (simp add: percentage_def C_def T_def)
  also have "\<dots> = float64 (float64 C / float64 T) * 100 * (1 + d4)" by (rule p)
  also have "\<dots> = float64 C / float64 T * (1 + d3) * 100 * (1 + d4)" by (simp only: r)
  also have "\<dots> = C * (1 + d1) / (T * (1 + d2)) * (1 + d3) * 100 * (1 + d4)"
    by (simp only: a b)
  also have "\<dots> = 100 * C / T * ?F"
    using T d2p by (simp add: field_simps)
  finally have "percentage c t = 100 * C / T * ?F" .
  then have "percentage c t - 100 * C / T = 100 * C / T * (?F - 1)"
    by (simp add: algebra_simps)
  then have "\<bar>percentage c t - 100 * C / T\<bar> = (100 * \<bar>C\<bar> / T) * \<bar>?F - 1\<bar>"
    using T by (simp add: abs_mult)
  also have "\<dots> \<le> (100 * \<bar>C\<bar> / T) * (1 / 2 ^ 50)"
    using factor_bound[OF d1 d2 d3 d4] T by (intro mult_left_mono) simp_all
  finally show ?thesis by (simp add: C_def T_def)
qed

section \<open>Properties of the per-sample totals and of the relative abundance\<close>

lemma filter_absent: "s \<notin> Sample ` set df \<Longrightarrow> filter (\<lambda>r. Sample r = s) df = []"
  by (induction df) auto

lemma add_reads_apply:
  "add_reads m r s =
     (if s = Sample r
      then Some ((case m s of None \<Rightarrow> 0 | Some t \<Rightarrow> t) + alignedReadCount r)
      else m s)"
  by (simp add: add_reads_def split: option.splits)

lemma foldl_add_reads:
  "foldl add_reads m df s =
     (if s \<in> Sample ` set df
      then Some ((case m s of None \<Rightarrow> 0 | Some t \<Rightarrow> t)
                 + sum_list (map alignedReadCount (filter (\<lambda>r. Sample r = s) df)))
      else m s)"
proof (induction df arbitrary: m)
  case Nil
  then show ?case by simp
next
  case (Cons r df)
  have "foldl add_reads m (r # df) s = foldl add_reads (add_reads m r) df s" by simp
  also have "\<dots> = (if s \<in> Sample ` set df
      then Some ((case add_reads m r s of None \<Rightarrow> 0 | Some t \<Rightarrow> t)
                 + sum_list (map alignedReadCount (filter (\<lambda>r. Sample r = s) df)))
      else add_reads m r s)" by (rule Cons.IH)
  also have "\<dots> = (if s \<in> Sample ` set (r # df)
      then Some ((case m s of None \<Rightarrow> 0 | Some t \<Rightarrow> t)
                 + sum_list (map alignedReadCount (filter (\<lambda>r. Sample r = s) (r # df))))
      else m s)"
    by (auto simp: add_reads_apply filter_absent)
  finally show ?case .
qed

lemma sum_list_int64:
  "sint (sum_list (map f xs) :: 64 word) = int64 (sum_list (map (\<lambda>x. sint (f x)) xs))"
proof -
  have "sum_list (map f xs) = (word_of_int (sum_list (map (\<lambda>x. sint (f x)) xs)) :: 64 word)"
    by (induction xs) simp_all
  then show ?thesis by (simp add: int64_def)
qed

lemma groupby_Sample_sum_eq:
  "groupby_Sample_sum df s =
     (if s \<in> Sample ` set df then Some (int64 (sample_total df s)) else None)"
  by (simp add: groupby_Sample_sum_def foldl_add_reads sum_list_int64 sample_total_def)

lemma int64_fits: "- (2 ^ 63) \<le> n \<Longrightarrow> n < 2 ^ 63 \<Longrightarrow> int64 n = n"
  by (simp add: int64_def signed_of_int signed_take_bit_int_eq_self)

lemma set_unique: "set (unique xs) = set xs"
  by (induction xs rule: unique.induct) auto

lemma abundance_step_charts:
  "charts (abundance_step srt render dfp d acc s) = charts acc @ chart_of srt render dfp d s"
  by (auto simp: abundance_step_def chart_of_def Let_def split: option.splits)



lemma foldl_abundance_charts:
  "charts (foldl (abundance_step srt render dfp d) acc ss) =
     charts acc @ concat (map (chart_of srt render dfp d) ss)"
  by (induction ss arbitrary: acc) (simp_all add: abundance_step_charts)



lemma charts_plot:
  "charts (plot_relative_abundance srt render df d) =
     concat (map (chart_of srt render (filter (\<lambda>r. predictedPresent r = True) df) d)
                 (unique (map Sample (filter (\<lambda>r. predictedPresent r = True) df))))"
  by (simp add: plot_relative_abundance_def Let_def foldl_abundance_charts)



lemma concat_chart_known:
  assumes "\<And>s. s \<in> set ss \<Longrightarrow> d s = Some (tot s)"
  shows "concat (map (chart_of srt render dfp d) ss) =
     map (\<lambda>s. (s, srt (map (with_abundance (tot s)) (filter (\<lambda>r. Sample r = s) dfp))))
       (filter (\<lambda>s. 0 < tot s
                  \<and> render s (srt (map (with_abundance (tot s)) (filter (\<lambda>r. Sample r = s) dfp)))
                      = None) ss)"
  using assms by (induction ss) (auto simp: chart_of_def)

text \<open>
  C2, as amended. The map \<open>main\<close> passes to \<open>plot_relative_abundance\<close> gives every sample
  of the aggregate table the sum of the aligned read counts of all its records, present
  or not, reduced to an \<open>int64\<close> (the sum itself when it fits), and no other key. The
  charts saved are those of the samples with a predicted-present record and a positive
  total for which the chart library does not raise, in order of first appearance; each
  shows the predicted-present records of its sample, and the percentage of a record is
  the double \<open>(count / total) * 100\<close> computed from its aligned read count, as stored, and
  that total. For a positive total that double differs from the exact
  \<open>100 * count / total\<close> by at most \<open>2 ^ -50\<close> of it.
\<close>

theorem relative_abundance_computed:
  "groupby_Sample_sum df s =
     (if s \<in> Sample ` set df then Some (int64 (sample_total df s)) else None)
   \<and> (- (2 ^ 63) \<le> sample_total df s \<and> sample_total df s < 2 ^ 63
        \<longrightarrow> int64 (sample_total df s) = sample_total df s)
   \<and> charts (plot_relative_abundance sort_values render df (groupby_Sample_sum df)) =
       map (\<lambda>s. (s, sort_values
                (map (\<lambda>r. \<lparr>row_Sample = Sample r, row_Name = Name r,
                            row_alignedReadCount = alignedReadCount r,
                            relativeAbundance =
                              float64 (float64 (float64 (of_int (sint (alignedReadCount r)))
                                                / float64 (of_int (int64 (sample_total df s))))
                                       * 100)\<rparr>)
                     (filter (\<lambda>r. predictedPresent r \<and> Sample r = s) df))))
           (filter (\<lambda>s. 0 < int64 (sample_total df s)
                      \<and> render s (sort_values
                           (map (with_abundance (int64 (sample_total df s)))
                                (filter (\<lambda>r. predictedPresent r \<and> Sample r = s) df))) = None)
                   (unique (map Sample (filter predictedPresent df))))
   \<and> (0 < t \<longrightarrow>
        \<bar>float64 (float64 (float64 (of_int c) / float64 (of_int t)) * 100)
           - 100 * of_int c / of_int t\<bar>
        \<le> (100 * \<bar>of_int c\<bar> / of_int t) / 2 ^ 50)"
proof -
  let ?ss = "unique (map Sample (filter (\<lambda>r. predictedPresent r = True) df))"
  have near: "0 < t \<longrightarrow>
        \<bar>float64 (float64 (float64 (of_int c) / float64 (of_int t)) * 100)
           - 100 * of_int c / of_int t\<bar>
        \<le> (100 * \<bar>of_int c\<bar> / of_int t) / 2 ^ 50"
    using percentage_near[of t c] by (simp add: percentage_def)
  have known: "groupby_Sample_sum df s = Some (int64 (sample_total df s))" if "s \<in> set ?ss" for s
    using that by (auto simp: set_unique groupby_Sample_sum_eq)
  have wa: "with_abundance t = (\<lambda>r. \<lparr>row_Sample = Sample r, row_Name = Name r,
                            row_alignedReadCount = alignedReadCount r,
                            relativeAbundance =
                              float64 (float64 (float64 (of_int (sint (alignedReadCount r)))
                                                / float64 (of_int t)) * 100)\<rparr>)" for t
    by (simp add: with_abundance_def percentage_def fun_eq_iff)
  have c: "charts (plot_relative_abundance sort_values render df (groupby_Sample_sum df)) =
       map (\<lambda>s. (s, sort_values (map (with_abundance (int64 (sample_total df s)))
                     (filter (\<lambda>r. predictedPresent r \<and> Sample r = s) df))))
           (filter (\<lambda>s. 0 < int64 (sample_total df s)
                      \<and> render s (sort_values
                           (map (with_abundance (int64 (sample_total df s)))
                                (filter (\<lambda>r. predictedPresent r \<and> Sample r = s) df))) = None)
                   (unique (map Sample (filter predictedPresent df))))"
    by (simp add: charts_plot concat_chart_known[OF known])
  have rest: "groupby_Sample_sum df s =
       (if s \<in> Sample ` set df then Some (int64 (sample_total df s)) else None)
     \<and> (- (2 ^ 63) \<le> sample_total df s \<and> sample_total df s < 2 ^ 63
          \<longrightarrow> int64 (sample_total df s) = sample_total df s)"
    by (simp add: groupby_Sample_sum_eq int64_fits)
  have c': "charts (plot_relative_abundance sort_values render df (groupby_Sample_sum df)) =
       map (\<lambda>s. (s, sort_values
                (map (\<lambda>r. \<lparr>row_Sample = Sample r, row_Name = Name r,
                            row_alignedReadCount = alignedReadCount r,
                            relativeAbundance =
                              float64 (float64 (float64 (of_int (sint (alignedReadCount r)))
                                                / float64 (of_int (int64 (sample_total df s))))
                                       * 100)\<rparr>)
                     (filter (\<lambda>r. predictedPresent r \<and> Sample r = s) df))))
           (filter (\<lambda>s. 0 < int64 (sample_total df s)
                      \<and> render s (sort_values
                           (map (with_abundance (int64 (sample_total df s)))
                                (filter (\<lambda>r. predictedPresent r \<and> Sample r = s) df))) = None)
                   (unique (map Sample (filter predictedPresent df))))"
    unfolding c by (simp add: wa)
  from rest c' near show ?thesis by (intro conjI) blast+
qed

text \<open>
  One sample with 80 reads of a predicted-present organism and 20 of another one: the
  total is 100 and the chart shows the first at 80 percent.
\<close>

theorem relative_abundance_computed_witness:
  "groupby_Sample_sum batch_frame ''sample1'' = Some 100
   \<and> charts (plot_relative_abundance by_percentage_desc renders batch_frame
               (groupby_Sample_sum batch_frame)) =
       [(''sample1'', [\<lparr>row_Sample = ''sample1'', row_Name = JStr ''Escherichia coli'',
                        row_alignedReadCount = 80, relativeAbundance = 80\<rparr>])]"
proof -
  have t: "sample_total batch_frame ''sample1'' = 100"
    by (simp add: sample_total_def batch_frame_def frame_row_def)
  have i: "int64 100 = 100" by (simp add: int64_fits)
  have p: "float64 (float64 (float64 80 / float64 100) * 100) = 80" by code_simp
  from relative_abundance_computed[where df = batch_frame and s = "''sample1''"
      and sort_values = by_percentage_desc and render = renders and t = 100 and c = 80]
  show ?thesis
    by (simp add: t i p batch_frame_def frame_row_def by_percentage_desc_def renders_def
        sample_total_def)
qed

text \<open>
  C2 as stated fails in both halves. With 7 reads of a predicted-present organism out of
  25 the percentage computed is the double next above 28, not \<open>100 * 7 / 25\<close>; with two
  counts of \<open>2 ^ 62\<close> the total is \<open>- (2 ^ 63)\<close>, not their sum.
\<close>

theorem exact_percentage_counterexample:
  "map relativeAbundance (snd (hd (charts (plot_relative_abundance by_percentage_desc renders
       seven_frame (groupby_Sample_sum seven_frame))))) = [28 + 1 / 2 ^ 48]
   \<and> map relativeAbundance (snd (hd (charts (plot_relative_abundance by_percentage_desc renders
       seven_frame (groupby_Sample_sum seven_frame))))) \<noteq> [100 * 7 / 25]
   \<and> groupby_Sample_sum huge_frame ''sample1'' = Some (- (2 ^ 63))
   \<and> groupby_Sample_sum huge_frame ''sample1'' \<noteq> Some (sample_total huge_frame ''sample1'')"
proof -
  have p: "percentage 7 25 = 28 + 1 / 2 ^ 48"
    unfolding percentage_def by code_simp
  have g: "groupby_Sample_sum seven_frame ''sample1'' = Some 25"
    by (simp add: groupby_Sample_sum_def add_reads_def seven_frame_def frame_row_def)
  have f: "filter predictedPresent seven_frame =
       [frame_row ''sample1'' ''Escherichia coli'' 7 True]"
    by (simp add: seven_frame_def frame_row_def)
  have c: "map relativeAbundance (snd (hd (charts (plot_relative_abundance by_percentage_desc
       renders seven_frame (groupby_Sample_sum seven_frame))))) = [28 + 1 / 2 ^ 48]"
    by (simp add: charts_plot f chart_of_def g renders_def by_percentage_desc_def
        with_abundance_def p frame_row_def)
  have h: "groupby_Sample_sum huge_frame ''sample1'' = Some (- (2 ^ 63))"
    by (simp add: groupby_Sample_sum_def add_reads_def huge_frame_def frame_row_def)
  have t: "sample_total huge_frame ''sample1'' = 2 ^ 63"
    by (simp add: sample_total_def huge_frame_def frame_row_def)
  show ?thesis unfolding c h t by simp
qed






section \<open>Properties of the extractors on malformed entries\<close>

lemma amr_row_missing_list:
  assumes "amr_row sample_i (JObj kvs) = Inr r"
    and "map_of kvs ''associatedMicroorganisms'' = None
         \<or> (\<exists>a. map_of kvs ''associatedMicroorganisms'' = Some (JObj a) \<and> map_of a ''all'' = None)"
  shows "associatedMicroorganisms r = JNull"
  using assms unfolding amr_row_def then_ok_Inr by auto

lemma amr_row_empty_list:
  assumes "map_of kvs ''associatedMicroorganisms'' = Some (JObj a)" and "map_of a ''all'' = Some (JList [])"
  shows "amr_row sample_i (JObj kvs) = Inl IndexError"
  using assms by (simp add: amr_row_def then_ok_def)

text \<open>
  C4. A marker without the list of associated organisms gets a null field, but a marker
  whose list is present and empty makes \<open>[0]\<close> raise IndexError: the exception is caught
  by \<open>process_amr_markers\<close>, which returns no table, so the other markers of the sample
  are lost as well.
\<close>

theorem empty_associated_list_drops_sample:
  "amr_row ''1'' marker_no_list = Inr \<lparr>SampleID = ''sample1'', GeneName = JStr ''mecA'', Class = JNull,
      geneFamily = JNull, Coverage = JInt 88, medianDepth = JNull,
      associatedMicroorganisms = JNull, amr_predictedPresent = JBool False\<rparr>
   \<and> amr_row ''1'' marker_empty_list = Inl IndexError
   \<and> process_amr_markers empty_list_fs ''1'' ''sample'' =
       ([(ERROR, ''Error processing AMR marker data for sample 1: IndexError'')], None)"
  by (simp add: process_amr_markers_def load_json_report_def report_path_sample1
        empty_list_fs_def empty_list_report_def amr_try_def then_ok_def amr_row_def
        marker_empty_list_def marker_no_list_def marker_listed_def)

lemma mo_row_null_fails:
  assumes "map_of kvs ''ani'' = Some JNull \<or> map_of kvs ''rpkm'' = Some JNull"
  shows "mo_row sample_i (JObj kvs) \<noteq> Inr r"
  using assms unfolding mo_row_def then_ok_Inr by auto

lemma mo_rows_member:
  assumes "mo_rows sample_i items = Inr rs" and "item \<in> set items"
  shows "\<exists>r. mo_row sample_i item = Inr r"
proof -
  from assms(2) obtain i where "i < length items" "items ! i = item"
    by (auto simp: in_set_conv_nth)
  with mo_rows_nth[OF assms(1)] show ?thesis by auto
qed

text \<open>
  C9. When an entry of the microorganism list has \<open>ani\<close> or \<open>rpkm\<close> present with the
  value \<open>null\<close>, the default does not apply, an exception is raised inside the \<open>try\<close>
  block and \<open>process_microorganisms\<close> logs it and returns no table, whatever the other
  entries are.
\<close>

theorem null_field_drops_sample:
  assumes "fs (report_path sample_i common_prefix) = Parsed (JObj doc_kvs)"
    and "map_of doc_kvs ''targetReport'' = Some (JObj target)"
    and "map_of target ''microorganisms'' = Some (JList items)"
    and "JObj kvs \<in> set items"
    and "map_of kvs ''ani'' = Some JNull \<or> map_of kvs ''rpkm'' = Some JNull"
  shows "\<exists>e. process_microorganisms fs sample_i common_prefix =
           ([(ERROR, ''Error processing microorganism data for sample '' @ sample_i @ '': ''
                @ exc_text e)], None)"
proof -
  from assms(4) have ne: "items \<noteq> []" by auto
  have "\<exists>e. mo_rows sample_i items = Inl e"
  proof (cases "mo_rows sample_i items")
    case (Inr rs)
    from mo_rows_member[OF Inr assms(4)] mo_row_null_fails[OF assms(5)] show ?thesis by blast
  qed simp
  then obtain e where "mo_rows sample_i items = Inl e" ..
  with assms(2,3) ne have "mo_try sample_i (JObj doc_kvs) = Inl e"
    by (simp add: mo_try_def then_ok_def)
  with assms(1) show ?thesis
    by (auto simp: process_microorganisms_def load_json_report_def)
qed

text \<open>
  On the example report the two other entries are extracted without error on their own,
  the entry with the null \<open>ani\<close> raises TypeError in \<open>round\<close>, and the sample has no
  table.
\<close>

theorem null_field_drops_sample_witness:
  "(\<exists>r. mo_row ''1'' entry_six = Inr r) \<and> (\<exists>r. mo_row ''1'' entry_five = Inr r)
   \<and> mo_row ''1'' entry_null_ani = Inl TypeError
   \<and> snd (process_microorganisms null_ani_fs ''1'' ''sample'') = None
   \<and> fst (fst (process_microorganisms null_ani_fs ''1'' ''sample'') ! 0) = ERROR"
proof -
  have ok: "(\<exists>r. mo_row ''1'' entry_six = Inr r) \<and> (\<exists>r. mo_row ''1'' entry_five = Inr r)
     \<and> mo_row ''1'' entry_null_ani = Inl TypeError"
    by (simp add: mo_row_def then_ok_def presence_expr_def entry_six_def entry_five_def
        entry_null_ani_def)
  have f: "null_ani_fs (report_path ''1'' ''sample'') = Parsed (JObj [(''targetReport'',
     JObj [(''microorganisms'', JList [entry_six, entry_null_ani, entry_five])])])"
    by (simp add: report_path_sample1 null_ani_fs_def null_ani_report_def)
  have m: "JObj [(''name'', JStr ''Staphylococcus aureus''), (''alignedReadCount'', JInt 40),
     (''ani'', JNull)] \<in> set [entry_six, entry_null_ani, entry_five]"
    by (simp add: entry_null_ani_def)
  have t: "map_of [(''targetReport'',
       JObj [(''microorganisms'', JList [entry_six, entry_null_ani, entry_five])])] ''targetReport''
     = Some (JObj [(''microorganisms'', JList [entry_six, entry_null_ani, entry_five])])"
    by simp
  have l: "map_of [(''microorganisms'', JList [entry_six, entry_null_ani, entry_five])]
       ''microorganisms'' = Some (JList [entry_six, entry_null_ani, entry_five])"
    by simp
  have n: "map_of [(''name'', JStr ''Staphylococcus aureus''), (''alignedReadCount'', JInt 40),
       (''ani'', JNull)] ''ani'' = Some JNull
     \<or> map_of [(''name'', JStr ''Staphylococcus aureus''), (''alignedReadCount'', JInt 40),
       (''ani'', JNull)] ''rpkm'' = Some JNull"
    by simp
  from null_field_drops_sample[where fs = null_ani_fs and sample_i = "''1''"
      and common_prefix = "''sample''", OF f t l m n] obtain e where
    "process_microorganisms null_ani_fs ''1'' ''sample'' =
           ([(ERROR, ''Error processing microorganism data for sample '' @ ''1'' @ '': ''
                @ exc_text e)], None)" by auto
  with ok show ?thesis by simp
qed

section \<open>Sample labels and report paths\<close>

lemma mo_rows_label:
  "mo_rows sample_i items = Inr rs \<Longrightarrow> r \<in> set rs \<Longrightarrow> Sample r = ''sample'' @ sample_i"
proof (induction items arbitrary: rs)
  case Nil
  then show ?case by simp
next
  case (Cons item items)
  from Cons.prems(1) obtain r0 rs' where r0: "mo_row sample_i item = Inr r0"
    and rs': "mo_rows sample_i items = Inr rs'" and eq: "rs = r0 # rs'"
    by (auto simp: then_ok_Inr)
  from mo_row_fields[OF r0] have "Sample r0 = ''sample'' @ sample_i" by blast
  with Cons.IH[OF rs'] Cons.prems(2) eq show ?case by auto
qed

lemma amr_row_label: "amr_row sample_i item = Inr r \<Longrightarrow> SampleID r = ''sample'' @ sample_i"
  unfolding amr_row_def then_ok_Inr by auto

lemma amr_rows_label:
  "amr_rows sample_i items = Inr rs \<Longrightarrow> r \<in> set rs \<Longrightarrow> SampleID r = ''sample'' @ sample_i"
proof (induction items arbitrary: rs)
  case Nil
  then show ?case by simp
next
  case (Cons item items)
  from Cons.prems(1) obtain r0 rs' where r0: "amr_row sample_i item = Inr r0"
    and rs': "amr_rows sample_i items = Inr rs'" and eq: "rs = r0 # rs'"
    by (auto simp: then_ok_Inr)
  with Cons.IH[OF rs'] Cons.prems(2) amr_row_label[OF r0] show ?case by auto
qed

lemma amr_rows_length: "amr_rows sample_i items = Inr rs \<Longrightarrow> length rs = length items"
  by (induction items arbitrary: rs) (auto simp: then_ok_Inr)

lemma truthy_iter_nonempty: "truthy x \<Longrightarrow> py_iter x = Inr items \<Longrightarrow> items \<noteq> []"
  by (cases x) auto

lemma amr_try_Some:
  assumes "amr_try sample_i report = Inr (lg, Some tbl)"
  shows "\<exists>items. items \<noteq> [] \<and> amr_rows sample_i items = Inr tbl"
proof -
  from assms have "\<exists>tramr items. truthy tramr \<and> py_iter tramr = Inr items
      \<and> amr_rows sample_i items = Inr tbl"
    by (auto simp: amr_try_def then_ok_Inr split: if_splits)
  then show ?thesis by (auto dest: truthy_iter_nonempty)
qed

lemma process_amr_markers_Some:
  assumes "process_amr_markers fs sample_i common_prefix = (lg, Some tbl)"
  shows "\<exists>items. items \<noteq> [] \<and> amr_rows sample_i items = Inr tbl"
proof -
  from assms obtain report lg' where "amr_try sample_i report = Inr (lg', Some tbl)"
    by (auto simp: process_amr_markers_def split: prod.splits if_splits sum.splits)
  then show ?thesis by (rule amr_try_Some)
qed

lemma process_microorganisms_rows:
  assumes "process_microorganisms fs sample_i common_prefix = (lg, Some tbl)"
  shows "\<exists>items. items \<noteq> [] \<and> mo_rows sample_i items = Inr tbl"
proof -
  from process_microorganisms_Some[OF assms] obtain report where
    t: "mo_try sample_i report = Inr ([], Some tbl)" by blast
  then have "\<exists>trmo items. truthy trmo \<and> py_iter trmo = Inr items
      \<and> mo_rows sample_i items = Inr tbl"
    by (auto simp: mo_try_def then_ok_Inr split: if_splits)
  then show ?thesis by (auto dest: truthy_iter_nonempty)
qed

lemma load_json_report_doc:
  "snd (load_json_report fs sample_i common_prefix) =
     (case fs (report_path sample_i common_prefix) of Parsed doc \<Rightarrow> doc | _ \<Rightarrow> JNull)"
  by (simp add: load_json_report_def split: file_result.splits)

text \<open>
  C5. For any identifier and any prefix, the loader reads the file
  \<open>sample<id>.<id>.report.json\<close> in the directory named prefix followed by identifier,
  and every row of the tables the two extractors return carries the label \<open>sample\<close>
  followed by the identifier: it is not empty, and the identifier after its first six
  characters, put behind the prefix, names the directory the report was read from.
\<close>

theorem sample_label:
  "report_path sample_i common_prefix =
     os_path_join (common_prefix @ sample_i)
       (''sample'' @ sample_i @ ''.'' @ sample_i @ ''.report.json'')
   \<and> snd (load_json_report fs sample_i common_prefix) =
       (case fs (os_path_join (common_prefix @ sample_i)
                   (''sample'' @ sample_i @ ''.'' @ sample_i @ ''.report.json'')) of
          Parsed doc \<Rightarrow> doc | _ \<Rightarrow> JNull)
   \<and> (\<forall>lg tbl. process_microorganisms fs sample_i common_prefix = (lg, Some tbl) \<longrightarrow>
         (\<forall>r \<in> set tbl. Sample r \<noteq> [] \<and> Sample r = ''sample'' @ sample_i
            \<and> sample_folder (drop 6 (Sample r)) common_prefix = common_prefix @ sample_i))
   \<and> (\<forall>lg tbl. process_amr_markers fs sample_i common_prefix = (lg, Some tbl) \<longrightarrow>
         (\<forall>r \<in> set tbl. SampleID r \<noteq> [] \<and> SampleID r = ''sample'' @ sample_i
            \<and> sample_folder (drop 6 (SampleID r)) common_prefix = common_prefix @ sample_i))"
proof -
  have p: "report_path sample_i common_prefix =
     os_path_join (common_prefix @ sample_i)
       (''sample'' @ sample_i @ ''.'' @ sample_i @ ''.report.json'')"
    by (simp add: report_path_def sample_folder_def report_name_def)
  have l: "snd (load_json_report fs sample_i common_prefix) =
       (case fs (os_path_join (common_prefix @ sample_i)
                   (''sample'' @ sample_i @ ''.'' @ sample_i @ ''.report.json'')) of
          Parsed doc \<Rightarrow> doc | _ \<Rightarrow> JNull)"
    unfolding p[symmetric] by (rule load_json_report_doc)
  have mo: "Sample r \<noteq> [] \<and> Sample r = ''sample'' @ sample_i
            \<and> sample_folder (drop 6 (Sample r)) common_prefix = common_prefix @ sample_i"
    if "process_microorganisms fs sample_i common_prefix = (lg, Some tbl)" "r \<in> set tbl"
    for lg tbl r
  proof -
    from process_microorganisms_rows[OF that(1)] obtain items where
      "mo_rows sample_i items = Inr tbl" by blast
    from mo_rows_label[OF this that(2)] show ?thesis by (simp add: sample_folder_def)
  qed
  have amr: "SampleID r \<noteq> [] \<and> SampleID r = ''sample'' @ sample_i
            \<and> sample_folder (drop 6 (SampleID r)) common_prefix = common_prefix @ sample_i"
    if "process_amr_markers fs sample_i common_prefix = (lg, Some tbl)" "r \<in> set tbl"
    for lg tbl r
  proof -
    from process_amr_markers_Some[OF that(1)] obtain items where
      "amr_rows sample_i items = Inr tbl" by blast
    from amr_rows_label[OF this that(2)] show ?thesis by (simp add: sample_folder_def)
  qed
  from p l mo amr show ?thesis by blast
qed

lemma report_path_batch1: "report_path ''1'' ''batch'' = ''batch1/sample1.1.report.json''"
  by (simp add: report_path_def sample_folder_def report_name_def os_path_join_def)

text \<open>
  The report of the directory \<open>batch1\<close>: it is read from
  \<open>batch1/sample1.1.report.json\<close> and all rows are labelled \<open>sample1\<close>.
\<close>

theorem sample_label_witness:
  "report_path ''1'' ''batch'' = ''batch1/sample1.1.report.json''
   \<and> snd (load_json_report batch_fs ''1'' ''batch'') = batch_report
   \<and> (\<exists>tbl. process_microorganisms batch_fs ''1'' ''batch'' = ([], Some tbl)
         \<and> map Sample tbl = [''sample1'', ''sample1''])
   \<and> (\<exists>tbl. process_amr_markers batch_fs ''1'' ''batch'' = ([], Some tbl)
         \<and> map SampleID tbl = [''sample1'', ''sample1''])"
proof -
  note inst = sample_label[of "''1''" "''batch''" batch_fs]
  have j: "os_path_join (''batch'' @ ''1'') (''sample'' @ ''1'' @ ''.'' @ ''1'' @ ''.report.json'')
      = ''batch1/sample1.1.report.json''"
    by (simp add: os_path_join_def)
  from inst have a: "report_path ''1'' ''batch'' = ''batch1/sample1.1.report.json''"
    unfolding j by blast
  from inst have b: "snd (load_json_report batch_fs ''1'' ''batch'') = batch_report"
    unfolding j by (simp add: batch_fs_def)
  have "\<exists>tbl. process_microorganisms batch_fs ''1'' ''batch'' = ([], Some tbl) \<and> length tbl = 2"
    by (simp add: process_microorganisms_def load_json_report_def report_path_batch1
        batch_fs_def batch_report_def mo_try_def then_ok_def mo_row_def presence_expr_def
        entry_six_def entry_no_count_def)
  then obtain mt where mt: "process_microorganisms batch_fs ''1'' ''batch'' = ([], Some mt)"
    and ml: "length mt = 2" by blast
  from inst mt have "\<forall>r \<in> set mt. Sample r = ''sample'' @ ''1''" by blast
  with ml have c: "map Sample mt = [''sample1'', ''sample1'']"
    by (cases mt; cases "tl mt") auto
  have "\<exists>tbl. process_amr_markers batch_fs ''1'' ''batch'' = ([], Some tbl) \<and> length tbl = 2"
    by (simp add: process_amr_markers_def load_json_report_def report_path_batch1
        batch_fs_def batch_report_def amr_try_def then_ok_def amr_row_def
        marker_listed_def marker_no_list_def)
  then obtain amt where amt: "process_amr_markers batch_fs ''1'' ''batch'' = ([], Some amt)"
    and al: "length amt = 2" by blast
  from inst amt have "\<forall>r \<in> set amt. SampleID r = ''sample'' @ ''1''" by blast
  with al have d: "map SampleID amt = [''sample1'', ''sample1'']"
    by (cases amt; cases "tl amt") auto
  from a b c d mt amt show ?thesis by simp
qed

text \<open>
  C10. When exactly one entry of the working directory is a directory not starting with
  \<open>Results\<close> (the natural sort returns a one-element list as it is), the common prefix
  is its whole name and the identifiers are one empty string; the loader then reads
  the file named \<open>sample..report.json\<close> in that directory.
\<close>

theorem single_directory:
  assumes "filter (\<lambda>f. is_dir f \<and> \<not> startswith f ''Results'') entries = [d]"
    and "nat_sort [d] = [d]"
  shows "extract_sample_info entries is_dir nat_sort = ([''''], d)
       \<and> sample_folder '''' d = d
       \<and> report_name '''' = ''sample..report.json''
       \<and> report_path '''' d = os_path_join d ''sample..report.json''
       \<and> snd (load_json_report fs '''' d) =
           (case fs (os_path_join d ''sample..report.json'') of Parsed doc \<Rightarrow> doc | _ \<Rightarrow> JNull)"
proof -
  have cp: "commonprefix [d] = d"
    by (induction d) (simp_all add: commonprefix_def)
  have e: "extract_sample_info entries is_dir nat_sort = ([''''], d)"
    using assms by (simp add: extract_sample_info_def Let_def cp)
  have p: "report_path '''' d = os_path_join d ''sample..report.json''"
    by (simp add: report_path_def sample_folder_def report_name_def)
  show ?thesis
    using e p load_json_report_doc[of fs "''''" d]
    by (simp add: sample_folder_def report_name_def)
qed

text \<open>
  The working directory with the single sample directory \<open>run_A\<close>: the loader looks for
  \<open>run_A/sample..report.json\<close>, which does not exist in the example file system.
\<close>

theorem single_directory_witness:
  "extract_sample_info single_listing not_the_notes sort = ([''''], ''run_A'')
   \<and> report_path '''' ''run_A'' = ''run_A/sample..report.json''
   \<and> snd (load_json_report batch_fs '''' ''run_A'') = JNull"
proof -
  have f: "filter (\<lambda>f. not_the_notes f \<and> \<not> startswith f ''Results'') single_listing = [''run_A'']"
    by (simp add: single_listing_def not_the_notes_def startswith_def)
  have s: "sort [''run_A''] = [''run_A'']" by simp
  from single_directory[of not_the_notes single_listing "''run_A''" sort batch_fs, OF f s]
  show ?thesis by (simp add: os_path_join_def batch_fs_def)
qed

section \<open>Properties of the run\<close>

lemma unreadable_mo:
  "fs (report_path sample_i common_prefix) \<in> {FileNotFound, JSONDecodeError, OtherError}
   \<Longrightarrow> snd (process_microorganisms fs sample_i common_prefix) = None"
  by (auto simp: process_microorganisms_def load_json_report_def)

lemma unreadable_amr:
  "fs (report_path sample_i common_prefix) \<in> {FileNotFound, JSONDecodeError, OtherError}
   \<Longrightarrow> snd (process_amr_markers fs sample_i common_prefix) = None"
  by (auto simp: process_amr_markers_def load_json_report_def)

lemma sample_step_tables:
  "snd (sample_step fs common_prefix acc sample_i) =
     ((case snd (process_microorganisms fs sample_i common_prefix) of
         None \<Rightarrow> fst (snd acc) | Some t \<Rightarrow> fst (snd acc) @ [t]),
      (case snd (process_amr_markers fs sample_i common_prefix) of
         None \<Rightarrow> snd (snd acc) | Some t \<Rightarrow> snd (snd acc) @ [t]))"
  by (cases acc) (simp add: sample_step_def split: prod.splits cong: option.case_cong)

lemma foldl_sample_step_mo:
  "fst (snd (foldl (sample_step fs common_prefix) acc names)) =
     fst (snd acc) @ List.map_filter (\<lambda>n. snd (process_microorganisms fs n common_prefix)) names"
proof (induction names arbitrary: acc)
  case Nil
  then show ?case by simp
next
  case (Cons n names)
  show ?case
    by (simp add: Cons.IH sample_step_tables split: option.splits)
qed

lemma foldl_sample_step_amr:
  "snd (snd (foldl (sample_step fs common_prefix) acc names)) =
     snd (snd acc) @ List.map_filter (\<lambda>n. snd (process_amr_markers fs n common_prefix)) names"
proof (induction names arbitrary: acc)
  case Nil
  then show ?case by simp
next
  case (Cons n names)
  show ?case
    by (simp add: Cons.IH sample_step_tables split: option.splits)
qed

lemma map_filter_append:
  "List.map_filter f (xs @ ys) = List.map_filter f xs @ List.map_filter f ys"
  by (simp add: List.map_filter_def)

lemma process_samples_tables:
  "fst (snd (process_samples fs common_prefix names)) =
     List.map_filter (\<lambda>n. snd (process_microorganisms fs n common_prefix)) names"
  "snd (snd (process_samples fs common_prefix names)) =
     List.map_filter (\<lambda>n. snd (process_amr_markers fs n common_prefix)) names"
  by (simp_all add: process_samples_def foldl_sample_step_mo foldl_sample_step_amr)

text \<open>
  C8. When the report of a sample is missing, is not JSON, or cannot be read for another
  reason, both extractors return \<open>None\<close> (they return a value: nothing is raised), and
  the loop goes on: whatever samples come before and after it, the lists of tables the
  loop builds hold, in order, exactly the tables the extractors return for those other
  samples.
\<close>

theorem unreadable_sample_contributes_nothing:
  assumes "fs (report_path sample_i common_prefix) \<in> {FileNotFound, JSONDecodeError, OtherError}"
  shows "snd (process_microorganisms fs sample_i common_prefix) = None
       \<and> snd (process_amr_markers fs sample_i common_prefix) = None
       \<and> fst (snd (process_samples fs common_prefix (before @ sample_i # after))) =
           List.map_filter (\<lambda>n. snd (process_microorganisms fs n common_prefix)) (before @ after)
       \<and> snd (snd (process_samples fs common_prefix (before @ sample_i # after))) =
           List.map_filter (\<lambda>n. snd (process_amr_markers fs n common_prefix)) (before @ after)
       \<and> snd (process_samples fs common_prefix (before @ sample_i # after)) =
           snd (process_samples fs common_prefix (before @ after))"
proof -
  have mo: "snd (process_microorganisms fs sample_i common_prefix) = None"
    using assms by (rule unreadable_mo)
  have amr: "snd (process_amr_markers fs sample_i common_prefix) = None"
    using assms by (rule unreadable_amr)
  have 1: "fst (snd (process_samples fs common_prefix (before @ sample_i # after))) =
           List.map_filter (\<lambda>n. snd (process_microorganisms fs n common_prefix)) (before @ after)"
    by (simp add: process_samples_tables map_filter_append mo)
  have 2: "snd (snd (process_samples fs common_prefix (before @ sample_i # after))) =
           List.map_filter (\<lambda>n. snd (process_amr_markers fs n common_prefix)) (before @ after)"
    by (simp add: process_samples_tables map_filter_append amr)
  have 3: "snd (process_samples fs common_prefix (before @ sample_i # after)) =
           snd (process_samples fs common_prefix (before @ after))"
    using 1 2 by (simp add: process_samples_tables prod_eq_iff)
  from mo amr 1 2 3 show ?thesis by simp
qed

lemma report_path_batch2: "report_path ''2'' ''batch'' = ''batch2/sample2.2.report.json''"
  by (simp add: report_path_def sample_folder_def report_name_def os_path_join_def)

text \<open>
  The report of \<open>batch2\<close> is missing and that of \<open>batch1\<close> has two microorganisms and two
  markers: the loop over the identifiers 2, 1 collects one table of each kind, with
  the two rows of \<open>batch1\<close>.
\<close>

theorem unreadable_sample_contributes_nothing_witness:
  "batch_fs (report_path ''2'' ''batch'') = FileNotFound
   \<and> snd (process_amr_markers batch_fs ''2'' ''batch'') = None
   \<and> map (map Sample) (fst (snd (process_samples batch_fs ''batch'' [''2'', ''1''])))
       = [[''sample1'', ''sample1'']]
   \<and> map (map GeneName) (snd (snd (process_samples batch_fs ''batch'' [''2'', ''1''])))
       = [[JStr ''vanA'', JStr ''mecA'']]"
proof -
  have f: "batch_fs (report_path ''2'' ''batch'') = FileNotFound"
    by (simp add: report_path_batch2 batch_fs_def)
  then have b: "batch_fs (report_path ''2'' ''batch'') \<in> {FileNotFound, JSONDecodeError, OtherError}"
    by simp
  have m: "map (map Sample)
       (List.map_filter (\<lambda>n. snd (process_microorganisms batch_fs n ''batch'')) [''1''])
       = [[''sample1'', ''sample1'']]"
    by (simp add: process_microorganisms_def load_json_report_def
        report_path_batch1 batch_fs_def batch_report_def mo_try_def then_ok_def mo_row_def
        presence_expr_def entry_six_def entry_no_count_def)
  have a: "map (map GeneName)
       (List.map_filter (\<lambda>n. snd (process_amr_markers batch_fs n ''batch'')) [''1''])
       = [[JStr ''vanA'', JStr ''mecA'']]"
    by (simp add: process_amr_markers_def load_json_report_def
        report_path_batch1 batch_fs_def batch_report_def amr_try_def then_ok_def amr_row_def
        marker_listed_def marker_no_list_def)
  note t = unreadable_sample_contributes_nothing[where fs = batch_fs and sample_i = "''2''"
      and common_prefix = "''batch''" and before = "[]" and after = "[''1'']", OF b]
  have n: "snd (process_amr_markers batch_fs ''2'' ''batch'') = None"
    by (rule t[THEN conjunct2, THEN conjunct1])
  have 1: "fst (snd (process_samples batch_fs ''batch'' [''2'', ''1''])) =
      List.map_filter (\<lambda>n. snd (process_microorganisms batch_fs n ''batch'')) [''1'']"
    using t[THEN conjunct2, THEN conjunct2, THEN conjunct1] by (simp only: append_Nil)
  have 2: "snd (snd (process_samples batch_fs ''batch'' [''2'', ''1''])) =
      List.map_filter (\<lambda>n. snd (process_amr_markers batch_fs n ''batch'')) [''1'']"
    using t[THEN conjunct2, THEN conjunct2, THEN conjunct2, THEN conjunct1]
    by (simp only: append_Nil)
  have M: "map (map Sample) (fst (snd (process_samples batch_fs ''batch'' [''2'', ''1''])))
       = [[''sample1'', ''sample1'']]"
    unfolding 1 by (rule m)
  have A: "map (map GeneName) (snd (snd (process_samples batch_fs ''batch'' [''2'', ''1''])))
       = [[JStr ''vanA'', JStr ''mecA'']]"
    unfolding 2 by (rule a)
  show ?thesis by (intro conjI f n M A)
qed

lemma sample_step_nonempty:
  assumes "[] \<notin> set (fst (snd acc))" and "[] \<notin> set (snd (snd acc))"
  shows "[] \<notin> set (fst (snd (sample_step fs common_prefix acc sample_i)))
       \<and> [] \<notin> set (snd (snd (sample_step fs common_prefix acc sample_i)))"
proof -
  have mo: "t \<noteq> []" if "snd (process_microorganisms fs sample_i common_prefix) = Some t" for t
  proof -
    from that have "process_microorganisms fs sample_i common_prefix =
        (fst (process_microorganisms fs sample_i common_prefix), Some t)"
      by (metis prod.collapse)
    from process_microorganisms_rows[OF this] mo_rows_nth show ?thesis by fastforce
  qed
  have amr: "t \<noteq> []" if "snd (process_amr_markers fs sample_i common_prefix) = Some t" for t
  proof -
    from that have "process_amr_markers fs sample_i common_prefix =
        (fst (process_amr_markers fs sample_i common_prefix), Some t)"
      by (metis prod.collapse)
    from process_amr_markers_Some[OF this] amr_rows_length show ?thesis by fastforce
  qed
  from assms mo amr show ?thesis
    by (auto simp: sample_step_tables split: option.splits)
qed

lemma foldl_sample_step_nonempty:
  "[] \<notin> set (fst (snd acc)) \<Longrightarrow> [] \<notin> set (snd (snd acc)) \<Longrightarrow>
     [] \<notin> set (fst (snd (foldl (sample_step fs common_prefix) acc names)))
     \<and> [] \<notin> set (snd (snd (foldl (sample_step fs common_prefix) acc names)))"
proof (induction names arbitrary: acc)
  case Nil
  then show ?case by simp
next
  case (Cons n names)
  from sample_step_nonempty[OF Cons.prems] Cons.IH show ?case by simp
qed

lemma process_samples_nonempty:
  assumes "process_samples fs common_prefix names = (lg, all_mo_tables, all_amr_tables)"
  shows "[] \<notin> set all_mo_tables \<and> [] \<notin> set all_amr_tables"
  using foldl_sample_step_nonempty[of "([], [], [])" fs common_prefix names] assms
  by (simp add: process_samples_def)

lemma concat_empty_tables: "[] \<notin> set tables \<Longrightarrow> concat tables = [] \<Longrightarrow> tables = []"
  by (cases tables) auto

text \<open>
  C3, as amended. When the result directories are set up, at least one sample is found
  and both aggregate tables are empty after the loop, \<open>main\<close> logs the error
  "No data could be processed from any sample. Exiting." (which reaches the log file) and
  returns: no table is written and nothing is printed, neither the failure message nor
  the success message.
\<close>

theorem no_data_exit:
  assumes "setup_error e = None"
    and "extract_sample_info (listing e) (isdir e) (natsorted e) = (sample_names, common_prefix)"
    and "sample_names \<noteq> []"
    and "process_samples (files e) common_prefix sample_names =
           (lg, all_mo_tables, all_amr_tables)"
    and "concat all_mo_tables = []" and "concat all_amr_tables = []"
  shows "main e =
           \<lparr>printed = [],
            logged = (INFO, ''Result directories created/verified successfully.'') # lg @
              [(ERROR, ''No data could be processed from any sample. Exiting.'')],
            written = None\<rparr>
       \<and> (ERROR, ''No data could be processed from any sample. Exiting.'')
            \<in> set (log_file (logged (main e)))"
proof -
  from process_samples_nonempty[OF assms(4)] assms(5,6)
  have "all_mo_tables = []" "all_amr_tables = []"
    by (auto dest: concat_empty_tables)
  with assms(1-4) have m: "main e =
           \<lparr>printed = [],
            logged = (INFO, ''Result directories created/verified successfully.'') # lg @
              [(ERROR, ''No data could be processed from any sample. Exiting.'')],
            written = None\<rparr>"
    by (simp add: main_def)
  show ?thesis unfolding m by (simp add: log_file_def)
qed

lemma missing_env_samples:
  "extract_sample_info (listing missing_env) (isdir missing_env) (natsorted missing_env) =
     ([''1'', ''2''], ''batch'')"
proof -
  have "extract_sample_info folder_listing not_the_notes sort = ([''1'', ''2''], ''batch'')"
    by code_simp
  then show ?thesis by (simp add: missing_env_def)
qed

lemma missing_env_tables:
  "process_samples (files missing_env) ''batch'' [''1'', ''2''] =
     ([(ERROR, ''FileNotFoundError: Report not found for sample 1 at batch1/sample1.1.report.json''),
       (ERROR, ''FileNotFoundError: Report not found for sample 1 at batch1/sample1.1.report.json''),
       (ERROR, ''FileNotFoundError: Report not found for sample 2 at batch2/sample2.2.report.json''),
       (ERROR, ''FileNotFoundError: Report not found for sample 2 at batch2/sample2.2.report.json'')],
      [], [])"
  by (simp add: process_samples_def sample_step_def process_microorganisms_def
      process_amr_markers_def load_json_report_def missing_env_def report_path_batch1
      report_path_batch2)

text \<open>
  Two sample directories without report files: four errors from the loader, the
  directories' message and the final error are logged, nothing is printed or written.
\<close>

theorem no_data_exit_witness:
  "printed (main missing_env) = [] \<and> written (main missing_env) = None
   \<and> length (logged (main missing_env)) = 6
   \<and> (ERROR, ''No data could be processed from any sample. Exiting.'')
        \<in> set (log_file (logged (main missing_env)))"
proof -
  have s: "setup_error missing_env = None" by (simp add: missing_env_def)
  have n: "[''1'', ''2''] \<noteq> ([] :: string list)" by simp
  from no_data_exit[OF s missing_env_samples n missing_env_tables]
  show ?thesis by (simp add: log_file_def)
qed

text \<open>
  C3 as stated fails: in that run both aggregate tables are empty and the failure
  message is not printed.
\<close>

theorem no_data_prints_failure_counterexample:
  "\<not> (concat (fst (snd (process_samples (files missing_env) ''batch'' [''1'', ''2'']))) = []
       \<and> concat (snd (snd (process_samples (files missing_env) ''batch'' [''1'', ''2'']))) = []
       \<longrightarrow> FatalMessage \<in> set (printed (main missing_env)))"
proof -
  have s: "setup_error missing_env = None" by (simp add: missing_env_def)
  have "printed (main missing_env) = []"
    by (simp add: main_def s missing_env_samples missing_env_tables)
  then show ?thesis by (simp add: missing_env_tables)
qed

end
